theory Spec2Isabelle
  imports Main "HOL-Library.Sublist"
begin

section \<open>Data model\<close>

text \<open>
  Python strings are modelled as \<^typ>\<open>string\<close>: a list of 8-bit characters holding the
  UTF-8 encoding of the text.  The string operations of the model (\<^verbatim>\<open>lower\<close>,
  \<^verbatim>\<open>strip\<close>, \<^verbatim>\<open>splitlines\<close>, the regular expressions) are those of Python on ASCII
  text, where a character is a byte; on other text Python also knows white space, line
  boundaries and letters beyond ASCII.  A statement that depends on what these operations
  do to a text is made for ASCII text (\<open>is_ascii\<close> below).
\<close>

datatype py_error =
  KeyError | NameError string | ValueError | CancelledError | TimeoutError | OtherException string

text \<open>A chat message \<^verbatim>\<open>{"role": ..., "content": ...}\<close>.\<close>

record message =
  role :: string
  content :: string

text \<open>A keyword table row \<^verbatim>\<open>{"keyword": ..., "performance": ..., "sov": ...}\<close>.\<close>

record keyword_row =
  keyword :: string
  performance :: string
  sov :: string

text \<open>
  \<^verbatim>\<open>gr.update(value=..., interactive=..., visible=...)\<close>: each argument is optional.  A
  value is a piece of HTML or text, or the chat history.
\<close>

datatype display = Html string | Messages "message list"

record gr_update =
  upd_value :: "display option"
  upd_interactive :: "bool option"
  upd_visible :: "bool option"

text \<open>
  The agent object, as far as \<^verbatim>\<open>handle_stop\<close> touches it: whether it has a
  \<^verbatim>\<open>stop\<close> method, and the two flags of \<^verbatim>\<open>agent.state\<close>.
\<close>

record agent =
  has_stop :: bool
  stopped :: bool
  paused :: bool

text \<open>
  The attributes of \<^verbatim>\<open>WebuiManager\<close> that the research tab uses.  A component is an opaque
  handle compared by identity: the type parameter \<open>'c\<close>.  A dictionary keyed by components
  that may hold the key \<^verbatim>\<open>None\<close> (a slot that is not registered) is a map from
  \<open>'c option\<close>.  The controller, the browser and the browser context are external objects;
  the model records whether each is set.  A task handle is an index into the task table of
  the event loop (see \<open>tasks\<close> below).
\<close>

record 'c webui_manager =
  id_to_component :: "string \<rightharpoonup> 'c"
  component_to_id :: "'c \<rightharpoonup> string"
  vayner_chat_history :: "message list"
  vayner_pdf_report :: "string option"
  vayner_controller :: bool
  vayner_browser :: bool
  vayner_browser_context :: bool
  vayner_agent :: "agent option"
  vayner_current_task :: "nat option"
  vayner_screenshots :: "string list"
  vayner_business_info :: "string list"
  vayner_keyword_data :: "string list"
  vayner_ranking_data :: "string list"
  vayner_current_business :: string
  vayner_keyword_table_rows :: "keyword_row list"
  update_queue :: "('c option \<rightharpoonup> gr_update) list"

text \<open>
  The manager after \<^verbatim>\<open>__init__\<close> and \<^verbatim>\<open>init_vayner_client_research\<close>
  (webui\_manager.py, lines 22 to 94).
\<close>

definition init_manager :: "'c webui_manager" where
  "init_manager = \<lparr>
     id_to_component = Map.empty,
     component_to_id = Map.empty,
     vayner_chat_history = [],
     vayner_pdf_report = None,
     vayner_controller = False,
     vayner_browser = False,
     vayner_browser_context = False,
     vayner_agent = None,
     vayner_current_task = None,
     vayner_screenshots = [],
     vayner_business_info = [],
     vayner_keyword_data = [],
     vayner_ranking_data = [],
     vayner_current_business = ''Unknown Business'',
     vayner_keyword_table_rows = [],
     update_queue = [] \<rparr>"

section \<open>Component registry (webui\_manager.py)\<close>

text \<open>The f-string \<^verbatim>\<open>f"{tab_name}.{comp_name}"\<close>.\<close>

definition comp_id :: "string \<Rightarrow> string \<Rightarrow> string" where
  "comp_id tab_name comp_name = tab_name @ ''.'' @ comp_name"

text \<open>
  \<^verbatim>\<open>add_components\<close> loops over \<^verbatim>\<open>components_dict.items()\<close> in insertion order and
  assigns into both dictionaries.  The argument dictionary is given as the list of its
  items.  The source has no membership test and no \<^verbatim>\<open>raise\<close> here, so the model has
  no error branch.
\<close>

fun add_components :: "'c webui_manager \<Rightarrow> string \<Rightarrow> (string \<times> 'c) list \<Rightarrow> 'c webui_manager" where
  "add_components m tab_name [] = m"
| "add_components m tab_name ((comp_name, component) # items) =
     add_components
       (m\<lparr>id_to_component := (id_to_component m)(comp_id tab_name comp_name \<mapsto> component),
          component_to_id := (component_to_id m)(component \<mapsto> comp_id tab_name comp_name)\<rparr>)
       tab_name items"

text \<open>\<^verbatim>\<open>self.id_to_component.get(comp_id, None)\<close>\<close>

definition get_component_by_id :: "'c webui_manager \<Rightarrow> string \<Rightarrow> 'c option" where
  "get_component_by_id m cid = id_to_component m cid"

text \<open>\<^verbatim>\<open>self.component_to_id[comp]\<close>, which raises \<^verbatim>\<open>KeyError\<close> on a missing key.\<close>

definition get_id_by_component :: "'c webui_manager \<Rightarrow> 'c \<Rightarrow> py_error + string" where
  "get_id_by_component m component =
     (case component_to_id m component of None \<Rightarrow> Inl KeyError | Some cid \<Rightarrow> Inr cid)"

text \<open>
  The inverse law of the two dictionaries: an id resolves to a handle exactly when the
  handle maps back to that id.
\<close>

definition registry_inverse :: "'c webui_manager \<Rightarrow> bool" where
  "registry_inverse m \<longleftrightarrow>
     (\<forall>cid c. id_to_component m cid = Some c \<longleftrightarrow> component_to_id m c = Some cid)"

text \<open>
  A sequence of \<^verbatim>\<open>add_components\<close> calls, as \<^verbatim>\<open>create_ui\<close> makes them, one per tab.
\<close>

fun register_seq :: "'c webui_manager \<Rightarrow> (string \<times> (string \<times> 'c) list) list \<Rightarrow> 'c webui_manager" where
  "register_seq m [] = m"
| "register_seq m ((tab_name, items) # calls) = register_seq (add_components m tab_name items) calls"

text \<open>
  A call is fresh for a registry when its field names and its handles are pairwise distinct
  and none of its composed ids or handles is registered yet.
\<close>

definition fresh_for :: "'c webui_manager \<Rightarrow> string \<Rightarrow> (string \<times> 'c) list \<Rightarrow> bool" where
  "fresh_for m tab_name items \<longleftrightarrow>
     distinct (map fst items) \<and> distinct (map snd items) \<and>
     list_all (\<lambda>(n, c). id_to_component m (comp_id tab_name n) = None \<and> component_to_id m c = None) items"

fun all_fresh :: "'c webui_manager \<Rightarrow> (string \<times> (string \<times> 'c) list) list \<Rightarrow> bool" where
  "all_fresh m [] = True"
| "all_fresh m ((tab_name, items) # calls) =
     (fresh_for m tab_name items \<and> all_fresh (add_components m tab_name items) calls)"

text \<open>Example registries, with components numbered.\<close>

definition reg0 :: "nat webui_manager" where
  "reg0 = add_components init_manager ''t'' [(''f'', 1)]"

definition ui_calls :: "(string \<times> (string \<times> nat) list) list" where
  "ui_calls = [(''vayner_client_research'', [(''run_button'', 1), (''stop_button'', 2)]),
               (''documentation'', [(''docs'', 3)])]"

section \<open>Update queue\<close>

text \<open>
  \<^verbatim>\<open>webui_manager.update_queue\<close> is a Python list of fragments; a fragment is a dictionary
  from a component to its update.  The step callback pushes with \<^verbatim>\<open>append\<close>.
\<close>

definition push :: "'f list \<Rightarrow> 'f \<Rightarrow> 'f list" where
  "push queue fragment = queue @ [fragment]"

text \<open>
  The drain is the inner loop of \<^verbatim>\<open>handle_submit\<close>:
  \<^verbatim>\<open>
  while webui_manager.update_queue:
      pdf_updates = webui_manager.update_queue.pop(0)
      update.update(pdf_updates)
  \<close>
  The model returns the merged \<^verbatim>\<open>update\<close>, the queue that is left, and the values
  that \<^verbatim>\<open>pdf_updates\<close> took, in the order of the iterations.
\<close>

fun drain :: "('k \<rightharpoonup> 'v) \<Rightarrow> ('k \<rightharpoonup> 'v) list \<Rightarrow>
    ('k \<rightharpoonup> 'v) \<times> ('k \<rightharpoonup> 'v) list \<times> ('k \<rightharpoonup> 'v) list" where
  "drain update [] = (update, [], [])"
| "drain update (pdf_updates # queue) =
     (case drain (update ++ pdf_updates) queue of
        (update', queue', popped) \<Rightarrow> (update', queue', pdf_updates # popped))"

section \<open>Python string operations\<close>

text \<open>ASCII text: every character is below 0x80.\<close>

definition is_ascii :: "string \<Rightarrow> bool" where
  "is_ascii s \<longleftrightarrow> list_all (\<lambda>c. \<not> digit7 c) s"

text \<open>
  \<^verbatim>\<open>str.isspace\<close> on an ASCII character: tab, line feed, vertical tab, form feed,
  carriage return, the separators 0x1C to 0x1F, and space.  The class \<^verbatim>\<open>\s\<close> of \<^verbatim>\<open>re\<close>
  is the same set.
\<close>

definition is_space :: "char \<Rightarrow> bool" where
  "is_space c \<longleftrightarrow> c \<in> set [CHR 0x09, CHR 0x0A, CHR 0x0B, CHR 0x0C, CHR 0x0D,
                            CHR 0x1C, CHR 0x1D, CHR 0x1E, CHR 0x1F, CHR 0x20]"

definition is_upper :: "char \<Rightarrow> bool" where
  "is_upper c \<longleftrightarrow> c \<in> set ''ABCDEFGHIJKLMNOPQRSTUVWXYZ''"

definition is_lower :: "char \<Rightarrow> bool" where
  "is_lower c \<longleftrightarrow> c \<in> set ''abcdefghijklmnopqrstuvwxyz''"

definition is_digit :: "char \<Rightarrow> bool" where
  "is_digit c \<longleftrightarrow> c \<in> set ''0123456789''"

text \<open>\<^verbatim>\<open>str.lower\<close>, character by character.\<close>

definition lower_char :: "char \<Rightarrow> char" where
  "lower_char c =
     (case map_of (zip ''ABCDEFGHIJKLMNOPQRSTUVWXYZ'' ''abcdefghijklmnopqrstuvwxyz'') c of
        Some l \<Rightarrow> l | None \<Rightarrow> c)"

definition lower :: "string \<Rightarrow> string" where
  "lower s = map lower_char s"

text \<open>
  \<^verbatim>\<open>s.strip()\<close> removes leading and trailing white space; on ASCII text the white
  space is \<open>is_space\<close>.
\<close>

definition strip :: "string \<Rightarrow> string" where
  "strip s = rev (dropWhile is_space (rev (dropWhile is_space s)))"

text \<open>\<^verbatim>\<open>s.strip(chars)\<close> removes leading and trailing characters of \<^verbatim>\<open>chars\<close>.\<close>

definition strip_chars :: "string \<Rightarrow> string \<Rightarrow> string" where
  "strip_chars chars s =
     rev (dropWhile (\<lambda>c. c \<in> set chars) (rev (dropWhile (\<lambda>c. c \<in> set chars) s)))"

text \<open>
  \<^verbatim>\<open>s.split(sep)\<close> for a non-empty separator: the pieces between the occurrences
  of \<^verbatim>\<open>sep\<close>, found from the left without overlap; the empty string gives one empty
  piece.  The first argument collects the current piece, reversed.
\<close>

fun split_aux :: "string \<Rightarrow> string \<Rightarrow> string \<Rightarrow> string list" where
  "split_aux sep cur [] = [rev cur]"
| "split_aux sep cur (c # cs) =
     (if sep \<noteq> [] \<and> prefix sep (c # cs)
      then rev cur # split_aux sep [] (drop (length sep - 1) cs)
      else split_aux sep (c # cur) cs)"

definition split :: "string \<Rightarrow> string \<Rightarrow> string list" where
  "split sep s = split_aux sep [] s"

text \<open>
  \<^verbatim>\<open>s.splitlines()\<close>: the line boundaries of an ASCII string are line feed, carriage
  return, carriage return followed by line feed, vertical tab, form feed and the
  separators 0x1C to 0x1E.  No empty last line is produced after a final boundary.
\<close>

definition is_linebreak :: "char \<Rightarrow> bool" where
  "is_linebreak c \<longleftrightarrow> c \<in> set [CHR 0x0A, CHR 0x0B, CHR 0x0C, CHR 0x0D, CHR 0x1C, CHR 0x1D, CHR 0x1E]"

fun splitlines_aux :: "string \<Rightarrow> string \<Rightarrow> string list" where
  "splitlines_aux cur [] = (if cur = [] then [] else [rev cur])"
| "splitlines_aux cur (c # cs) =
     (if is_linebreak c then
        rev cur # (case cs of
                     d # ds \<Rightarrow> if c = CHR 0x0D \<and> d = CHR 0x0A then splitlines_aux [] ds
                               else splitlines_aux [] cs
                   | [] \<Rightarrow> splitlines_aux [] cs)
      else splitlines_aux (c # cur) cs)"

definition splitlines :: "string \<Rightarrow> string list" where
  "splitlines s = splitlines_aux [] s"

text \<open>\<^verbatim>\<open>s.startswith(p)\<close> is \<^const>\<open>prefix\<close>; \<^verbatim>\<open>sub in s\<close> is substring search.\<close>

fun contains :: "string \<Rightarrow> string \<Rightarrow> bool" where
  "contains sub [] = (sub = [])"
| "contains sub (c # cs) = (prefix sub (c # cs) \<or> contains sub cs)"

text \<open>\<^verbatim>\<open>s.replace(old, new)\<close> for a one-character \<^verbatim>\<open>old\<close>.\<close>

definition replace_char :: "char \<Rightarrow> string \<Rightarrow> string \<Rightarrow> string" where
  "replace_char old new s = concat (map (\<lambda>c. if c = old then new else [c]) s)"

text \<open>
  The index of the first element that satisfies a test, as the loops
  \<^verbatim>\<open>for i, line in enumerate(lines): if ...: index = i; break\<close> compute it; \<open>None\<close>
  stands for the initial value \<open>-1\<close>.
\<close>

fun first_index :: "('a \<Rightarrow> bool) \<Rightarrow> 'a list \<Rightarrow> nat option" where
  "first_index P [] = None"
| "first_index P (x # xs) = (if P x then Some 0 else map_option Suc (first_index P xs))"

section \<open>Regular expressions\<close>

text \<open>
  The two patterns of the source are sequences of literals and of repeated character
  classes, all compiled with \<^verbatim>\<open>re.IGNORECASE\<close>.  An element is a literal (compared
  case-insensitively) or a character class under \<^verbatim>\<open>+\<close>, \<^verbatim>\<open>*\<close> or \<^verbatim>\<open>?\<close>.  The matcher
  is the backtracking matcher of \<^verbatim>\<open>re\<close>: a repetition is greedy, it first takes the
  longest run and gives characters back one at a time until the rest of the pattern
  matches.  The result lists the text matched by each element, in order.
\<close>

datatype rx = Lit string | Plus "char \<Rightarrow> bool" | Star "char \<Rightarrow> bool" | Opt "char \<Rightarrow> bool"

fun rx_match :: "rx list \<Rightarrow> string \<Rightarrow> string list option"
  and rx_rep :: "nat \<Rightarrow> nat \<Rightarrow> rx list \<Rightarrow> string \<Rightarrow> string list option" where
  "rx_match [] s = Some []"
| "rx_match (Lit l # r) s =
     (if length l \<le> length s \<and> lower (take (length l) s) = lower l
      then map_option ((#) (take (length l) s)) (rx_match r (drop (length l) s))
      else None)"
| "rx_match (Plus p # r) s = rx_rep 1 (length (takeWhile p s)) r s"
| "rx_match (Star p # r) s = rx_rep 0 (length (takeWhile p s)) r s"
| "rx_match (Opt p # r) s = rx_rep 0 (min 1 (length (takeWhile p s))) r s"
| "rx_rep lo k r s =
     (if k < lo then None
      else (case rx_match r (drop k s) of
              Some ps \<Rightarrow> Some (take k s # ps)
            | None \<Rightarrow> (case k of 0 \<Rightarrow> None | Suc j \<Rightarrow> rx_rep lo j r s)))"

text \<open>\<^verbatim>\<open>re.search\<close>: the first position, from the left, where the pattern matches.\<close>

fun rx_search :: "rx list \<Rightarrow> string \<Rightarrow> string list option" where
  "rx_search r [] = rx_match r []"
| "rx_search r (c # cs) =
     (case rx_match r (c # cs) of Some ps \<Rightarrow> Some ps | None \<Rightarrow> rx_search r cs)"

text \<open>The class \<^verbatim>\<open>\w\<close> on ASCII text.\<close>

definition is_word :: "char \<Rightarrow> bool" where
  "is_word c \<longleftrightarrow> is_lower c \<or> is_upper c \<or> is_digit c \<or> c = CHR ''_''"

text \<open>
  \<^verbatim>\<open>keyword[:\s]+([\w\- ]+)[,;\s]+performance[:\s]+([\w\-\.]+)[,;\s]+sov[:\s]+([\w\-\.]+)\<close>
  The groups are the elements 2, 6 and 10.
\<close>

definition row_pattern :: "rx list" where
  "row_pattern =
     [Lit ''keyword'', Plus (\<lambda>c. c = CHR '':'' \<or> is_space c),
      Plus (\<lambda>c. is_word c \<or> c = CHR ''-'' \<or> c = CHR '' ''),
      Plus (\<lambda>c. c = CHR '','' \<or> c = CHR '';'' \<or> is_space c),
      Lit ''performance'', Plus (\<lambda>c. c = CHR '':'' \<or> is_space c),
      Plus (\<lambda>c. is_word c \<or> c = CHR ''-'' \<or> c = CHR ''.''),
      Plus (\<lambda>c. c = CHR '','' \<or> c = CHR '';'' \<or> is_space c),
      Lit ''sov'', Plus (\<lambda>c. c = CHR '':'' \<or> is_space c),
      Plus (\<lambda>c. is_word c \<or> c = CHR ''-'' \<or> c = CHR ''.'')]"

text \<open>\<^verbatim>\<open>\|?\s*keyword\s*\|\s*performance\s*\|\s*sov\s*\|?\<close>\<close>

definition header_pattern :: "rx list" where
  "header_pattern =
     [Opt (\<lambda>c. c = CHR ''|''), Star is_space, Lit ''keyword'', Star is_space, Lit ''|'',
      Star is_space, Lit ''performance'', Star is_space, Lit ''|'', Star is_space,
      Lit ''sov'', Star is_space, Opt (\<lambda>c. c = CHR ''|'')]"

section \<open>Live report renderer (generate\_live\_report)\<close>

text \<open>
  The final result of the task, \<^verbatim>\<open>history.final_result()\<close>: absent, a text, a list or
  a dictionary.  A list element is given by the text that formatting it produces and, when
  it is a dictionary with string values, by its items; a dictionary is given by the texts
  of its keys and values, in order.
\<close>

datatype fitem = Item (item_str: string) (item_dict: "(string \<times> string) list option")

datatype final_result = FNone | FStr string | FList "fitem list" | FDict "(string \<times> string) list"

text \<open>Truth value of a result, as in \<^verbatim>\<open>if final_result:\<close>.\<close>

fun truthy :: "final_result \<Rightarrow> bool" where
  "truthy FNone = False"
| "truthy (FStr s) = (s \<noteq> [])"
| "truthy (FList xs) = (xs \<noteq> [])"
| "truthy (FDict kvs) = (kvs \<noteq> [])"

text \<open>The fixed text of the report, from the string literals of the source.\<close>

definition cover_page_open :: string where
  \<open>cover_page_open =
     ''\<newline>'' @
     ''    <div style="width:100%; min-height:400px; background:#000; color:#fff; display:flex; flex-direction:column; align-items:center; justify-content:center; padding:60px 0 40px 0;">\<newline>'' @
     ''        <div style="width:70%; max-width:500px; margin-bottom:30px;">\<newline>'' @
     ''            <div style="text-align:center; margin-bottom:20px;">\<newline>'' @
     ''                <svg width="120" height="80" viewBox="0 0 120 80" fill="none" xmlns="http://www.w3.org/2000/svg">\<newline>'' @
     ''                    <path d="M60 15C70 15 80 25 90 30C100 35 110 30 115 25C110 40 100 50 80 50C60 50 40 40 30 30C40 35 50 15 60 15Z" fill="white"/>\<newline>'' @
     ''                    <path d="M70 15C65 20 60 18 55 15" stroke="white" stroke-width="2"/>\<newline>'' @
     ''                    <path d="M75 12C70 17 65 15 60 12" stroke="white" stroke-width="2"/>\<newline>'' @
     ''                </svg>\<newline>'' @
     ''            </div>\<newline>'' @
     ''            <div style="font-size:2.7rem; font-weight:600; letter-spacing:2px; text-align:center; line-height:1.1; text-transform:uppercase; font-family: 'Montserrat', Arial, sans-serif;">\<newline>'' @
     ''                ''\<close>

definition cover_page_close :: string where
  \<open>cover_page_close =
     ''\<newline>'' @
     ''            </div>\<newline>'' @
     ''            <div style="font-size:1.2rem; text-align:center; letter-spacing:1px; margin-top:5px; text-transform:uppercase; font-family: 'Montserrat', Arial, sans-serif;">\<newline>'' @
     ''               \<newline>'' @
     ''            </div>\<newline>'' @
     ''        </div>\<newline>'' @
     ''        \<newline>'' @
     ''        <div style="font-size:2.5rem; font-weight:600; margin: 30px 0; text-align:center;">X</div>\<newline>'' @
     ''        \<newline>'' @
     ''        <div style="width:70%; max-width:500px;">\<newline>'' @
     ''            <div style="font-size:2.1rem; font-weight:700; letter-spacing:2px; text-align:center; text-transform:uppercase; font-family: 'Montserrat', Arial, sans-serif;">\<newline>'' @
     ''                <div style="display:inline-block; margin-right:10px; vertical-align:middle;">'' @
     [CHR 0xE2, CHR 0x80, CHR 0x9A, CHR 0xC3, CHR 0xB3, CHR 0xC3, CHR 0x9C] @
     ''</div> VAYNERCOMMERCE\<newline>'' @
     ''            </div>\<newline>'' @
     ''        </div>\<newline>'' @
     ''    </div>\<newline>'' @
     ''    ''\<close>

definition second_page_open :: string where
  \<open>second_page_open =
     ''\<newline>'' @
     ''    <div style="width:100%; min-height:400px; background:#fff; color:#222; display:flex; flex-direction:row; align-items:stretch; padding:0;">\<newline>'' @
     ''        <div style="flex:1; display:flex; flex-direction:column; align-items:center; justify-content:center; padding:40px 20px; border-right:1px solid #eee;">\<newline>'' @
     ''            <div style="width:240px; margin-bottom:20px;">\<newline>'' @
     ''                <svg viewBox="0 0 240 140" width="240" height="140" xmlns="http://www.w3.org/2000/svg">\<newline>'' @
     ''                    <path d="M120 30C140 30 160 50 180 60C200 70 220 60 230 50C220 80 200 100 160 100C120 100 80 80 60 60C80 70 100 30 120 30Z" fill="#4A8FBA"/>\<newline>'' @
     ''                    <path d="M140 30C130 40 120 36 110 30" stroke="#4A8FBA" stroke-width="2"/>\<newline>'' @
     ''                    <path d="M150 24C140 34 130 30 120 24" stroke="#4A8FBA" stroke-width="2"/>\<newline>'' @
     ''                    <ellipse cx="140" cy="70" rx="100" ry="15" fill="#E3B151" opacity="0.3"/>\<newline>'' @
     ''                </svg>\<newline>'' @
     ''            </div>\<newline>'' @
     ''            <div style="font-size:2.2rem; font-weight:600; color:#4A8FBA; margin-bottom:10px; font-family: 'Montserrat', Arial, sans-serif; text-transform:uppercase; letter-spacing:1px; text-align:center; line-height:1.1;">\<newline>'' @
     ''                ''\<close>

definition second_page_close :: string where
  \<open>second_page_close =
     ''<br>\<newline>'' @
     ''                <span style="font-size:1.1rem; color:#666; text-transform:uppercase; letter-spacing:1px;">BEHAVIORAL HEALTH</span>\<newline>'' @
     ''            </div>\<newline>'' @
     ''            <div style="font-size:1.1rem; color:#666; margin:20px 0; text-align:center;">SEO Services</div>\<newline>'' @
     ''            <div style="font-size:1rem; color:#444; text-align:center;">Weeks of <span style="font-weight:600;">04/07/25 - 04/21/25</span></div>\<newline>'' @
     ''            <div style="margin-top:60px; font-size:0.9rem; color:#bbb; font-family: 'Montserrat', Arial, sans-serif;">\<newline>'' @
     ''                <span style="display:inline-block; margin-right:5px; vertical-align:middle;">'' @
     [CHR 0xE2, CHR 0x80, CHR 0x9A, CHR 0xC3, CHR 0xB3, CHR 0xC3, CHR 0x9C] @
     ''</span> VAYNERCOMMERCE\<newline>'' @
     ''            </div>\<newline>'' @
     ''        </div>\<newline>'' @
     ''        <div style="flex:1; min-height:400px; background-image:url('https://images.unsplash.com/photo-1577563908411-5077b6dc7624?auto=format&fit=crop&w=700&q=80'); background-size:cover; background-position:center;">\<newline>'' @
     ''        </div>\<newline>'' @
     ''    </div>\<newline>'' @
     ''    ''\<close>

definition third_page_open :: string where
  \<open>third_page_open =
     ''\<newline>'' @
     ''    <div style="width:100%; min-height:600px; background:#000; color:#fff; display:flex; flex-direction:column; align-items:center; justify-content:flex-start; padding:40px 0 40px 0; border-bottom:2px solid #222;">\<newline>'' @
     ''        <div style="font-size:1.8rem; font-weight:600; color:#fff; margin-bottom:10px; font-family: 'Montserrat', Arial, sans-serif;">Final Research Results</div>\<newline>'' @
     ''        <div style="width:90%; max-width:900px; margin-bottom:40px;">\<newline>'' @
     ''    ''\<close>

definition result_placeholder :: string where
  \<open>result_placeholder =
     ''\<newline>'' @
     ''        <div style="width:90%; background-color:#111; color:#fff; padding:20px; border-radius:4px; text-align:center; margin:20px 0;">\<newline>'' @
     ''            <p style="color:#bbb; font-style:italic;">Results will appear here when the task is completed.</p>\<newline>'' @
     ''        </div>\<newline>'' @
     ''        ''\<close>

definition keyword_table_open :: string where
  \<open>keyword_table_open =
     ''\<newline>'' @
     ''        <div style="width:90%; max-width:800px; margin-top:30px;">\<newline>'' @
     ''            <div style="font-size:1.4rem; font-weight:600; color:#fff; margin-bottom:15px; font-family: 'Montserrat', Arial, sans-serif;">Keyword Performance Summary</div>\<newline>'' @
     ''            <table style="width:100%; border-collapse:collapse; background:#000; color:#fff;">\<newline>'' @
     ''                <thead>\<newline>'' @
     ''                    <tr style="background-color:#222; color:#fff;">\<newline>'' @
     ''                        <th style="padding:10px; border:1px solid #333; text-align:left;">Keyword</th>\<newline>'' @
     ''                        <th style="padding:10px; border:1px solid #333; text-align:left;">Performance</th>\<newline>'' @
     ''                        <th style="padding:10px; border:1px solid #333; text-align:left;">SOV</th>\<newline>'' @
     ''                    </tr>\<newline>'' @
     ''                </thead>\<newline>'' @
     ''                <tbody>\<newline>'' @
     ''        ''\<close>

definition keyword_table_close :: string where
  \<open>keyword_table_close =
     ''\<newline>'' @
     ''                </tbody>\<newline>'' @
     ''            </table>\<newline>'' @
     ''        </div>\<newline>'' @
     ''        ''\<close>

text \<open>
  Lines 376 to 379: a text is taken for a table when one of its lines holds a \<open>|\<close>, or
  holds both \<open>keyword\<close> and \<open>performance\<close>.
\<close>

definition is_table :: "final_result \<Rightarrow> bool" where
  \<open>is_table final_result =
     (case final_result of
        FStr s \<Rightarrow>
          (let lines = split ''\<newline>'' (strip s)
           in list_ex (contains ''|'') lines \<or>
              list_ex (\<lambda>line. contains ''keyword'' (lower line) \<and>
                               contains ''performance'' (lower line)) lines)
      | _ \<Rightarrow> False)\<close>

text \<open>\<^verbatim>\<open>[line.strip() for line in final_result.split('\n') if line.strip()]\<close>\<close>

definition stripped_lines :: "string list \<Rightarrow> string list" where
  "stripped_lines ls = map strip (filter (\<lambda>line. strip line \<noteq> []) ls)"

text \<open>The test of the header search, line 392.\<close>

definition is_header_line :: "string \<Rightarrow> bool" where
  "is_header_line line \<longleftrightarrow>
     (contains ''keyword'' (lower line) \<and> contains ''performance'' (lower line)) \<or>
     (contains ''keyword'' (lower line) \<and> contains ''sov'' (lower line))"

text \<open>\<^verbatim>\<open>[cell.strip() for cell in row.strip('|').split('|')]\<close>\<close>

definition cells_of :: "string \<Rightarrow> string list" where
  "cells_of row = map strip (split ''|'' (strip_chars ''|'' row))"

text \<open>
  Lines 384 to 427, the body of the \<^verbatim>\<open>try\<close>: it appends the table to \<open>html\<close>.  It
  consists of string operations on a text and of list indexing inside the bounds, none of
  which raises, so the \<^verbatim>\<open>except\<close> branch of line 428 is not reached.
\<close>

definition table_result :: "string \<Rightarrow> string \<Rightarrow> string" where
  \<open>table_result html final_result =
     (let html = html @ ''<div style="width:100%; overflow-x:auto; margin:20px 0; border-radius:4px; box-shadow:0 2px 10px rgba(0,0,0,0.1);">'';
          lines = stripped_lines (split ''\<newline>'' final_result);
          html =
            (case first_index is_header_line lines of
               Some header_row_index \<Rightarrow>
                 (let html = html @ ''<table style="width:100%; border-collapse:collapse; font-family:Arial, sans-serif; background:#000; color:#fff;">'';
                      header = lines ! header_row_index;
                      header_cells = cells_of header;
                      html = html @ ''<thead><tr style="background-color:#222; color:#fff;">'';
                      html = foldl (\<lambda>html cell. html @ ''<th style="padding:12px 15px; text-align:left; border-bottom:2px solid #444;">'' @ cell @ ''</th>'')
                               html header_cells;
                      html = html @ ''</tr></thead><tbody>'';
                      data_start =
                        (if header_row_index + 1 < length lines \<and>
                            contains ''---'' (lines ! (header_row_index + 1))
                         then header_row_index + 2 else header_row_index + 1);
                      html = foldl (\<lambda>html i.
                               (let row = lines ! i in
                                if contains ''|'' row then
                                  (let cells = cells_of row;
                                       bg_color = (if i mod 2 = 0 then ''#111'' else ''#181818'');
                                       html = html @ ''<tr style="background-color:'' @ bg_color @ ''; color:#fff;">'';
                                       html = foldl (\<lambda>html cell. html @ ''<td style="padding:10px 15px; border-bottom:1px solid #333;">'' @ cell @ ''</td>'')
                                                html cells
                                   in html @ ''</tr>'')
                                else html))
                               html [data_start..<length lines]
                  in html @ ''</tbody></table>'')
             | None \<Rightarrow>
                 html @ ''<pre style="width:100%; background-color:#111; color:#fff; padding:15px; border-radius:4px; white-space:pre-wrap; overflow-x:auto;">'' @ final_result @ ''</pre>'')
      in html @ ''</div>'')\<close>

text \<open>Lines 433 to 458: a result that is not a table, as paragraphs, a list or pairs.\<close>

definition plain_result :: "string \<Rightarrow> final_result \<Rightarrow> string" where
  \<open>plain_result html final_result =
     (let html = html @ ''<div style="width:100%; background-color:#111; color:#fff; padding:20px; border-radius:4px; border-left:4px solid #4A8FBA; margin:20px 0;">'';
          html =
            (case final_result of
               FStr s \<Rightarrow>
                 foldl (\<lambda>html paragraph.
                          if strip paragraph \<noteq> [] then
                            (let paragraph_html = replace_char CHR ''\<newline>'' ''<br>'' paragraph
                             in html @ ''<p style="margin-bottom:15px; line-height:1.5;">'' @ paragraph_html @ ''</p>'')
                          else html)
                   html (split ''\<newline>\<newline>'' s)
             | FList items \<Rightarrow>
                 (let html = html @ ''<ul style="margin-left:20px; line-height:1.5;">'';
                      html = foldl (\<lambda>html item. html @ ''<li style="margin-bottom:8px;">'' @ item_str item @ ''</li>'')
                               html items
                  in html @ ''</ul>'')
             | FDict kvs \<Rightarrow>
                 (let html = html @ ''<div style="line-height:1.5;">'';
                      html = foldl (\<lambda>html (key, val). html @ ''<div style="margin-bottom:10px;"><strong>'' @ key @ '':</strong> '' @ val @ ''</div>'')
                               html kvs
                  in html @ ''</div>'')
             | FNone \<Rightarrow> html)
      in html @ ''</div>'')\<close>

text \<open>Lines 482 to 487: one table row per keyword row.\<close>

definition keyword_row_html :: "keyword_row \<Rightarrow> string" where
  \<open>keyword_row_html row =
     ''<tr style="background-color:#111; color:#fff;">\<newline>'' @
     ''                <td style="padding:10px; border:1px solid #333;">'' @ keyword row @ ''</td>\<newline>'' @
     ''                <td style="padding:10px; border:1px solid #333;">'' @ performance row @ ''</td>\<newline>'' @
     ''                <td style="padding:10px; border:1px solid #333;">'' @ sov row @ ''</td>\<newline>'' @
     ''            </tr>''\<close>

text \<open>
  Lines 466 to 493, the keyword table: when there are rows, the table head, one table row
  per keyword row in the order of the list, and the table foot are appended to \<open>html\<close>.
\<close>

definition keyword_table_section :: "string \<Rightarrow> keyword_row list \<Rightarrow> string" where
  "keyword_table_section html keyword_table_rows =
     (if keyword_table_rows \<noteq> [] then
        (let html = html @ keyword_table_open;
             html = foldl (\<lambda>html row. html @ keyword_row_html row) html keyword_table_rows
         in html @ keyword_table_close)
      else html)"

text \<open>
  \<^verbatim>\<open>generate_live_report\<close>.  The parameter \<^verbatim>\<open>keyword_table_rows\<close> defaults to
  \<^verbatim>\<open>None\<close>, replaced by the empty list; \<^verbatim>\<open>final_result\<close> defaults to \<^verbatim>\<open>None\<close>.
  The four collections are parameters of the function; the types of their elements play
  no role.
\<close>

definition generate_live_report ::
  "string \<Rightarrow> 'a list \<Rightarrow> 'b list \<Rightarrow> 'd list \<Rightarrow> 'e list \<Rightarrow> keyword_row list option \<Rightarrow>
   final_result \<Rightarrow> string" where
  \<open>generate_live_report business_name business_info keyword_data ranking_data screenshots
       keyword_table_rows final_result =
     (let keyword_table_rows = (case keyword_table_rows of None \<Rightarrow> [] | Some rows \<Rightarrow> rows);
          html = cover_page_open @ business_name @ cover_page_close;
          html = html @ second_page_open @ business_name @ second_page_close;
          html = html @ third_page_open;
          html =
            (if truthy final_result then
               (if is_table final_result then
                  (case final_result of FStr s \<Rightarrow> table_result html s | _ \<Rightarrow> html)
                else plain_result html final_result)
             else html @ result_placeholder);
          html = keyword_table_section html keyword_table_rows
      in html @ ''</div></div>'')\<close>

section \<open>Keyword table extraction\<close>

text \<open>
  The guarded append that both callbacks use:
  \<^verbatim>\<open>
  if not any(row["keyword"].lower() == keyword.lower() for row in rows):
      rows.append({"keyword": keyword, "performance": performance, "sov": sov})
  \<close>
\<close>

definition insert_row :: "keyword_row list \<Rightarrow> string \<Rightarrow> string \<Rightarrow> string \<Rightarrow> keyword_row list" where
  "insert_row rows k p s =
     (if \<not> list_ex (\<lambda>row. lower (keyword row) = lower k) rows
      then rows @ [\<lparr>keyword = k, performance = p, sov = s\<rparr>]
      else rows)"

text \<open>
  \<^verbatim>\<open>re.search\<close> of the row pattern in a text, then the three groups, stripped.  A match
  of the eleven elements of the pattern lists eleven texts; the groups are at 2, 6 and 10.
\<close>

definition match_row :: "string \<Rightarrow> (string \<times> string \<times> string) option" where
  "match_row field =
     (case rx_search row_pattern field of
        Some ps \<Rightarrow> Some (strip (ps ! 2), strip (ps ! 6), strip (ps ! 10))
      | None \<Rightarrow> None)"

definition line_row :: "keyword_row list \<Rightarrow> string \<Rightarrow> keyword_row list" where
  "line_row rows line =
     (case match_row line of Some (k, p, s) \<Rightarrow> insert_row rows k p s | None \<Rightarrow> rows)"

text \<open>
  One action of a step, \<^verbatim>\<open>output.action[i]\<close>: its thought and its result.  \<open>None\<close>
  stands for an attribute that is missing, \<^verbatim>\<open>None\<close> or not a string.
\<close>

record action =
  thought :: "string option"
  result :: "string option"

text \<open>
  Lines 667 to 684 of \<^verbatim>\<open>step_callback\<close>: for each action, the thought and then the
  result are searched, when they are non-empty strings.
\<close>

definition field_row :: "keyword_row list \<Rightarrow> string option \<Rightarrow> keyword_row list" where
  "field_row rows field =
     (case field of
        Some f \<Rightarrow> if f \<noteq> [] then line_row rows f else rows
      | None \<Rightarrow> rows)"

definition step_table_rows :: "keyword_row list \<Rightarrow> action list \<Rightarrow> keyword_row list" where
  "step_table_rows rows actions =
     foldl (\<lambda>rows action. field_row (field_row rows (thought action)) (result action)) rows actions"

text \<open>
  Lines 838 to 850 of \<^verbatim>\<open>done_callback\<close>, the body of the loop over the table rows: a
  row that does not start with \<open>|\<close> is skipped, and so is a row with fewer than three cells
  or with an empty cell among the first three.
\<close>

definition table_row :: "keyword_row list \<Rightarrow> string \<Rightarrow> keyword_row list" where
  "table_row rows row =
     (if \<not> prefix ''|'' row then rows
      else (let cells = cells_of row in
            if length cells \<ge> 3 then
              (let k = cells ! 0; p = cells ! 1; s = cells ! 2 in
               if k \<noteq> [] \<and> p \<noteq> [] \<and> s \<noteq> [] then insert_row rows k p s else rows)
            else rows))"

text \<open>\<^verbatim>\<open>re.match\<close> of the header pattern at the start of a line.\<close>

definition is_table_header :: "string \<Rightarrow> bool" where
  "is_table_header line \<longleftrightarrow> rx_match header_pattern line \<noteq> None"

text \<open>
  Lines 829 to 850: the header is searched in the stripped non-empty lines; when it is
  found at \<open>table_start\<close> and \<open>table_start + 2 < len(lines)\<close>, the rows
  \<^verbatim>\<open>lines[table_start+2:]\<close> are read.
\<close>

definition parse_table :: "keyword_row list \<Rightarrow> string list \<Rightarrow> keyword_row list" where
  "parse_table rows lines =
     (case first_index is_table_header lines of
        Some table_start \<Rightarrow>
          if table_start + 2 < length lines
          then foldl table_row rows (drop (table_start + 2) lines)
          else rows
      | None \<Rightarrow> rows)"

text \<open>
  Lines 864 to 876: an element of a list result that is a dictionary gives a row when its
  three entries are present and non-empty.
\<close>

definition item_row :: "keyword_row list \<Rightarrow> fitem \<Rightarrow> keyword_row list" where
  "item_row rows item =
     (case item_dict item of
        Some kvs \<Rightarrow>
          (case (map_of kvs ''keyword'', map_of kvs ''performance'', map_of kvs ''sov'') of
             (Some k, Some p, Some s) \<Rightarrow>
               if k \<noteq> [] \<and> p \<noteq> [] \<and> s \<noteq> [] then insert_row rows k p s else rows
           | _ \<Rightarrow> rows)
      | None \<Rightarrow> rows)"

text \<open>
  Lines 820 to 876 of \<^verbatim>\<open>done_callback\<close>: the second extraction pass, over the final
  result.
\<close>

definition done_table_rows :: "keyword_row list \<Rightarrow> final_result \<Rightarrow> keyword_row list" where
  "done_table_rows rows final_result =
     (if truthy final_result then
        (case final_result of
           FStr s \<Rightarrow>
             (let lines = stripped_lines (splitlines s);
                  rows = parse_table rows lines
              in foldl line_row rows lines)
         | FList items \<Rightarrow> foldl item_row rows items
         | _ \<Rightarrow> rows)
      else rows)"




text \<open>The uniqueness invariant of the keyword rows.\<close>

definition kw_unique :: "keyword_row list \<Rightarrow> bool" where
  "kw_unique rows \<longleftrightarrow> distinct (map (\<lambda>row. lower (keyword row)) rows)"

text \<open>Example inputs.\<close>

definition dentist_steps :: "action list" where
  "dentist_steps =
     [\<lparr>thought = Some ''keyword: Dentist, performance: 12, sov: 3'', result = None\<rparr>,
      \<lparr>thought = None, result = Some ''keyword: dentist, performance: 99, sov: 1''\<rparr>]"




definition ab_rows :: "keyword_row list" where
  "ab_rows = [\<lparr>keyword = ''a'', performance = ''10'', sov = ''2''\<rparr>,
              \<lparr>keyword = ''b'', performance = ''20'', sov = ''4''\<rparr>]"

section \<open>The step and completion callbacks\<close>

text \<open>
  The browser state handed to \<^verbatim>\<open>step_callback\<close>, as far as it is read: the screenshot,
  the URL and the text of the page.  \<open>None\<close> stands for a missing attribute or \<^verbatim>\<open>None\<close>.
\<close>

record browser_state =
  screenshot :: "string option"
  url :: "string option"
  text_content :: "string option"

text \<open>\<^verbatim>\<open>if x not in notes: notes.append(x)\<close>\<close>

definition add_note :: "string list \<Rightarrow> string \<Rightarrow> string list" where
  "add_note notes x = (if x \<in> set notes then notes else notes @ [x])"

text \<open>Lines 616 to 649: the notes taken from the thought and the result of one action.\<close>

definition classify_action :: "'c webui_manager \<Rightarrow> action \<Rightarrow> 'c webui_manager" where
  "classify_action wm action =
     (let wm =
        (case thought action of
           Some th \<Rightarrow>
             if th \<noteq> [] then
               (let t = lower th;
                    wm = (if contains ''business'' t \<and>
                             list_ex (\<lambda>x. contains x t) [''name'', ''address'', ''info'', ''details'', ''about'']
                          then wm\<lparr>vayner_business_info := add_note (vayner_business_info wm) th\<rparr>
                          else wm);
                    wm = (if contains ''keyword'' t \<and>
                             list_ex (\<lambda>x. contains x t) [''performance'', ''score'', ''data'']
                          then wm\<lparr>vayner_keyword_data := add_note (vayner_keyword_data wm) th\<rparr>
                          else wm)
                in if list_ex (\<lambda>x. contains x t) [''ranking'', ''rank'', ''geography'', ''location'']
                   then wm\<lparr>vayner_ranking_data := add_note (vayner_ranking_data wm) th\<rparr>
                   else wm)
             else wm
         | None \<Rightarrow> wm)
      in (case result action of
            Some r \<Rightarrow>
              if r \<noteq> [] then
                (let res = lower r;
                     wm = (if contains ''business'' res \<and> length r > 10
                           then wm\<lparr>vayner_business_info := add_note (vayner_business_info wm) r\<rparr>
                           else wm);
                     wm = (if contains ''keyword'' res \<and> length r > 10
                           then wm\<lparr>vayner_keyword_data := add_note (vayner_keyword_data wm) r\<rparr>
                           else wm)
                 in if contains ''rank'' res \<and> length r > 10
                    then wm\<lparr>vayner_ranking_data := add_note (vayner_ranking_data wm) r\<rparr>
                    else wm)
              else wm
          | None \<Rightarrow> wm))"

text \<open>
  Lines 606 to 684: the notes of all actions, the page URL, the page text, and the keyword
  table rows.  Every statement is a string or list operation that does not raise.
\<close>

definition step_extract :: "'c webui_manager \<Rightarrow> browser_state \<Rightarrow> action list \<Rightarrow> 'c webui_manager" where
  "step_extract wm state actions =
     (let wm = foldl classify_action wm actions;
          wm = (case url state of
                  Some page_url \<Rightarrow>
                    if page_url \<noteq> [] \<and> contains ''business'' (lower page_url) \<and>
                       \<not> list_ex (\<lambda>info. contains page_url info) (vayner_business_info wm)
                    then wm\<lparr>vayner_business_info := vayner_business_info wm @ [''Page URL: '' @ page_url]\<rparr>
                    else wm
                | None \<Rightarrow> wm);
          wm = (case text_content state of
                  Some txt \<Rightarrow>
                    if txt \<noteq> [] \<and> contains ''keyword'' (lower txt) \<and> length txt > 20
                    then wm\<lparr>vayner_keyword_data := add_note (vayner_keyword_data wm) txt\<rparr>
                    else wm
                | None \<Rightarrow> wm)
      in wm\<lparr>vayner_keyword_table_rows := step_table_rows (vayner_keyword_table_rows wm) actions\<rparr>)"

text \<open>
  The names bound where \<^verbatim>\<open>step_callback\<close> runs: its own parameters and local names, the
  parameters and local names of the enclosing \<^verbatim>\<open>run_vayner_research\<close>, and the names of
  the module.  A name that is in none of the three (and is no builtin) raises
  \<^verbatim>\<open>NameError\<close> when it is evaluated.
\<close>

definition step_callback_scope :: "string list" where
  "step_callback_scope =
     [''state'', ''output'', ''step_num'', ''screenshot_data'', ''e'', ''action'', ''thought'',
      ''result'', ''page_url'', ''field'', ''re'', ''match'', ''keyword'', ''performance'', ''sov'',
      ''business_name'', ''pdf_report_comp'', ''log_html'', ''actions_text'', ''has_content'',
      ''action_dump'', ''state_dump'', ''action_type'', ''icon'', ''text'', ''details''] @
     [''webui_manager'', ''components'', ''run_button_comp'', ''stop_button_comp'', ''chatbot_comp'',
      ''browser_view_comp'', ''task'', ''get_setting'', ''llm_provider_name'', ''llm_model_name'',
      ''llm_temperature'', ''use_vision'', ''llm_base_url'', ''llm_api_key'', ''get_browser_setting'',
      ''headless'', ''disable_security'', ''window_w'', ''window_h'', ''save_recording_path'',
      ''save_download_path'', ''stream_vw'', ''stream_vh'', ''main_llm'', ''step_callback'',
      ''done_callback'', ''context_config'', ''agent_run_coro'', ''agent_task'', ''last_chat_len'',
      ''screenshot_b64'', ''html_content'', ''error_message''] @
     [''asyncio'', ''json'', ''logging'', ''os'', ''Any'', ''AsyncGenerator'', ''Dict'', ''List'',
      ''Optional'', ''datetime'', ''gr'', ''Component'', ''BrowserUseAgent'', ''CustomBrowser'',
      ''CustomController'', ''llm_provider'', ''WebuiManager'', ''BrowserConfig'', ''BrowserContext'',
      ''BrowserContextConfig'', ''logger'', ''load_dotenv'', ''VAYNER_USERNAME'', ''VAYNER_PASSWORD'',
      ''VAYNER_CLIENT_TEMPLATE'', ''generate_pdf_report'', ''generate_live_report'',
      ''run_vayner_research'', ''handle_submit'', ''handle_stop'', ''handle_clear'',
      ''create_vayner_client_research_tab'']"

definition name_error :: "string \<Rightarrow> py_error option" where
  "name_error n = (if n \<in> set step_callback_scope then None else Some (NameError n))"

text \<open>The id of the report slot.\<close>

definition pdf_report_id :: string where
  "pdf_report_id = ''vayner_client_research.pdf_report''"

text \<open>
  Lines 686 to 706: the report is generated from the collections and from
  \<^verbatim>\<open>history.final_result()\<close>, stored, and pushed on the update queue for the report
  slot when the slot is registered.  The arguments of the call are evaluated before the
  call, so the name \<^verbatim>\<open>history\<close> is looked up first; the parameter \<open>final_result\<close> is the
  value \<^verbatim>\<open>history.final_result()\<close> has when the name is bound.
\<close>

definition step_report_update :: "final_result \<Rightarrow> 'c webui_manager \<Rightarrow> py_error + 'c webui_manager" where
  "step_report_update final_result wm =
     (case name_error ''history'' of
        Some e \<Rightarrow> Inl e
      | None \<Rightarrow>
          (let business_name = vayner_current_business wm;
               report = generate_live_report business_name (vayner_business_info wm)
                          (vayner_keyword_data wm) (vayner_ranking_data wm) (vayner_screenshots wm)
                          (Some (vayner_keyword_table_rows wm)) final_result;
               wm = wm\<lparr>vayner_pdf_report := Some report\<rparr>
           in Inr (case get_component_by_id wm pdf_report_id of
                     Some pdf_report_comp \<Rightarrow>
                       wm\<lparr>update_queue :=
                            push (update_queue wm)
                              [Some pdf_report_comp \<mapsto>
                                 \<lparr>upd_value = Some (Html report), upd_interactive = None,
                                  upd_visible = Some True\<rparr>]\<rparr>
                   | None \<Rightarrow> wm)))"

text \<open>
  \<^verbatim>\<open>step_callback\<close>.  The screenshot is kept when it is a string of more than 100
  characters.  The extraction and the report update are the body of one \<^verbatim>\<open>try\<close>; its
  \<^verbatim>\<open>except Exception\<close> logs the error and goes on, with the assignments made before
  the error in place.  The log entry of the step (lines 711 to 807, built from the time of
  day and the dump of the actions) is the parameter \<open>log_html\<close>; it is appended to the
  chat history.
\<close>

definition step_callback ::
  "final_result \<Rightarrow> string \<Rightarrow> 'c webui_manager \<Rightarrow> browser_state \<Rightarrow> action list \<Rightarrow> 'c webui_manager" where
  "step_callback final_result log_html wm state actions =
     (let wm = (case screenshot state of
                  Some screenshot_data \<Rightarrow>
                    if screenshot_data \<noteq> [] \<and> length screenshot_data > 100
                    then wm\<lparr>vayner_screenshots := vayner_screenshots wm @ [screenshot_data]\<rparr>
                    else wm
                | None \<Rightarrow> wm);
          wm = step_extract wm state actions;
          wm = (case step_report_update final_result wm of
                  Inr wm' \<Rightarrow> wm'
                | Inl e \<Rightarrow> wm)
      in wm\<lparr>vayner_chat_history :=
              vayner_chat_history wm @ [\<lparr>role = ''assistant'', content = log_html\<rparr>]\<rparr>)"

text \<open>
  \<^verbatim>\<open>done_callback\<close>: the second extraction pass, the summary message (its text, built
  from the duration and the errors of the run, is the parameter \<open>final_summary\<close>), and the
  final report.
\<close>

definition done_callback :: "string \<Rightarrow> 'c webui_manager \<Rightarrow> final_result \<Rightarrow> 'c webui_manager" where
  "done_callback final_summary wm final_result =
     (let wm = wm\<lparr>vayner_keyword_table_rows :=
                    done_table_rows (vayner_keyword_table_rows wm) final_result\<rparr>;
          wm = wm\<lparr>vayner_chat_history :=
                    vayner_chat_history wm @ [\<lparr>role = ''assistant'', content = final_summary\<rparr>]\<rparr>
      in wm\<lparr>vayner_pdf_report :=
              Some (generate_live_report (vayner_current_business wm) (vayner_business_info wm)
                      (vayner_keyword_data wm) (vayner_ranking_data wm) (vayner_screenshots wm)
                      (Some (vayner_keyword_table_rows wm)) final_result)\<rparr>)"

section \<open>The handlers of the research tab\<close>

text \<open>
  The tasks of the event loop, in the order of their creation; a task handle is an index of
  this list.  \<^verbatim>\<open>asyncio.create_task\<close> appends a running task; \<^verbatim>\<open>task.done()\<close> reads
  the state.
\<close>

datatype task_state = Running | Finished | Cancelled

definition create_task :: "task_state list \<Rightarrow> task_state list \<times> nat" where
  "create_task tasks = (tasks @ [Running], length tasks)"

definition task_done :: "task_state list \<Rightarrow> nat \<Rightarrow> bool" where
  "task_done tasks t \<longleftrightarrow> \<not> (t < length tasks \<and> tasks ! t = Running)"

definition live_tasks :: "task_state list \<Rightarrow> nat" where
  "live_tasks tasks = length (filter (\<lambda>s. s = Running) tasks)"

text \<open>
  What \<^verbatim>\<open>run_vayner_research\<close> meets outside the manager: the API key of the
  environment, and the step of the initialisation (lines 906 to 949) that raises, if one
  does, with the text of its exception.
\<close>

datatype init_step = InitController | InitBrowser | InitContext | InitAgent | AddNewTask

record env =
  openai_api_key :: string
  failing_step :: "(init_step \<times> string) option"

definition raises_at :: "env \<Rightarrow> init_step \<Rightarrow> string option" where
  "raises_at e step =
     (case failing_step e of
        Some (s, msg) \<Rightarrow> if s = step then Some msg else None
      | None \<Rightarrow> None)"

text \<open>
  Lines 906 to 949: the controller, the browser and the browser context are created when
  they are not set; the agent is created when it is not set, and is given the new task
  otherwise.  The result is the text of the exception that ends the initialisation, if
  any, and the manager as it is then.
\<close>

definition init_objects :: "env \<Rightarrow> 'c webui_manager \<Rightarrow> string option \<times> 'c webui_manager" where
  "init_objects e wm =
     (case (if \<not> vayner_controller wm
            then (case raises_at e InitController of
                    Some msg \<Rightarrow> (Some msg, wm) | None \<Rightarrow> (None, wm\<lparr>vayner_controller := True\<rparr>))
            else (None, wm)) of
        (Some msg, wm) \<Rightarrow> (Some msg, wm)
      | (None, wm) \<Rightarrow>
     (case (if \<not> vayner_browser wm
            then (case raises_at e InitBrowser of
                    Some msg \<Rightarrow> (Some msg, wm) | None \<Rightarrow> (None, wm\<lparr>vayner_browser := True\<rparr>))
            else (None, wm)) of
        (Some msg, wm) \<Rightarrow> (Some msg, wm)
      | (None, wm) \<Rightarrow>
     (case (if \<not> vayner_browser_context wm
            then (case raises_at e InitContext of
                    Some msg \<Rightarrow> (Some msg, wm)
                  | None \<Rightarrow> (None, wm\<lparr>vayner_browser_context := True\<rparr>))
            else (None, wm)) of
        (Some msg, wm) \<Rightarrow> (Some msg, wm)
      | (None, wm) \<Rightarrow>
     (case vayner_agent wm of
        None \<Rightarrow>
          (case raises_at e InitAgent of
             Some msg \<Rightarrow> (Some msg, wm)
           | None \<Rightarrow>
               (None, wm\<lparr>vayner_agent := Some \<lparr>has_stop = True, stopped = False, paused = False\<rparr>\<rparr>))
      | Some a \<Rightarrow>
          (case raises_at e AddNewTask of Some msg \<Rightarrow> (Some msg, wm) | None \<Rightarrow> (None, wm))))))"

text \<open>A dictionary display \<^verbatim>\<open>{k1: v1, k2: v2, ...}\<close>: a later entry replaces an earlier one with the same key.\<close>

definition py_dict :: "('k \<times> 'v) list \<Rightarrow> ('k \<rightharpoonup> 'v)" where
  "py_dict kvs = foldl (\<lambda>m (k, v). m(k \<mapsto> v)) Map.empty kvs"

text \<open>The labels of the run button (the source file holds these characters).\<close>

definition researching_label :: string where
  \<open>researching_label = [CHR 0xE2, CHR 0x80, CHR 0x9A, CHR 0xC3, CHR 0xA8, CHR 0xE2, CHR 0x89, CHR 0xA5] @ '' Researching...''\<close>

definition research_client_label :: string where
  \<open>research_client_label = [CHR 0xE2, CHR 0x80, CHR 0x9A, CHR 0xC3, CHR 0xB1, CHR 0xE2, CHR 0x88, CHR 0x82, CHR 0xC3, CHR 0x94, CHR 0xE2, CHR 0x88, CHR 0x8F, CHR 0xC3, CHR 0xA8] @ '' Research Client''\<close>

definition run_button_id :: string where
  "run_button_id = ''vayner_client_research.run_button''"

definition stop_button_id :: string where
  "stop_button_id = ''vayner_client_research.stop_button''"

definition chatbot_id :: string where
  "chatbot_id = ''vayner_client_research.chatbot''"

text \<open>
  The result of a handler: the exception that leaves it, if any; the updates it yields, in
  order; the manager; the tasks of the event loop.
\<close>

type_synonym 'c outcome =
  "py_error option \<times> ('c option \<rightharpoonup> gr_update) list \<times> 'c webui_manager \<times> task_state list"

text \<open>
  \<^verbatim>\<open>run_vayner_research\<close>, from its start to the creation of the background task
  (line 954), where the monitoring loop begins.  The loop runs concurrently with the task
  and is not part of this function.  The settings are the defaults, since
  \<^verbatim>\<open>handle_submit\<close> passes an empty \<^verbatim>\<open>components\<close>; \<^verbatim>\<open>get_llm_model\<close> raises
  \<^verbatim>\<open>ValueError\<close> outside the \<^verbatim>\<open>try\<close> when there is no API key; an exception of the
  initialisation is caught, reported in the chat and in one more update.  The file system
  calls and the construction of the LLM client are taken to succeed.
\<close>

definition run_vayner_research :: "env \<Rightarrow> 'c webui_manager \<Rightarrow> task_state list \<Rightarrow> string \<Rightarrow> 'c outcome" where
  "run_vayner_research e wm tasks business_name =
     (let run_button_comp = get_component_by_id wm run_button_id;
          stop_button_comp = get_component_by_id wm stop_button_id;
          chatbot_comp = get_component_by_id wm chatbot_id;
          pdf_report_comp = get_component_by_id wm pdf_report_id;
          wm = wm\<lparr>vayner_chat_history := vayner_chat_history wm @
                 [\<lparr>role = ''user'', content = ''Research business: '' @ business_name\<rparr>,
                  \<lparr>role = ''assistant'', content = ''Starting research for '' @ business_name @ ''...''\<rparr>]\<rparr>;
          first = py_dict
             [(chatbot_comp, \<lparr>upd_value = Some (Messages (vayner_chat_history wm)),
                              upd_interactive = None, upd_visible = None\<rparr>),
              (run_button_comp, \<lparr>upd_value = Some (Html researching_label),
                                 upd_interactive = Some False, upd_visible = None\<rparr>),
              (stop_button_comp, \<lparr>upd_value = None, upd_interactive = Some True, upd_visible = None\<rparr>),
              (pdf_report_comp, \<lparr>upd_value = None, upd_interactive = None, upd_visible = Some False\<rparr>)]
             |` {k. k \<noteq> None}
      in if openai_api_key e = [] then (Some ValueError, [first], wm, tasks)
         else (case init_objects e wm of
                 (Some msg, wm) \<Rightarrow>
                   (let error_message = ''**Error during research:**\<newline>```\<newline>'' @ msg @ ''\<newline>```'';
                        wm = wm\<lparr>vayner_chat_history := vayner_chat_history wm @
                               [\<lparr>role = ''assistant'', content = error_message\<rparr>]\<rparr>
                    in (None,
                        [first,
                         py_dict
                           [(chatbot_comp, \<lparr>upd_value = Some (Messages (vayner_chat_history wm)),
                                            upd_interactive = None, upd_visible = None\<rparr>),
                            (run_button_comp, \<lparr>upd_value = Some (Html research_client_label),
                                               upd_interactive = Some True, upd_visible = None\<rparr>),
                            (stop_button_comp, \<lparr>upd_value = None, upd_interactive = Some False,
                                                upd_visible = None\<rparr>),
                            (pdf_report_comp, \<lparr>upd_value = None, upd_interactive = None,
                                               upd_visible = Some False\<rparr>)]],
                        wm, tasks))
               | (None, wm) \<Rightarrow>
                   (case create_task tasks of
                      (tasks, agent_task) \<Rightarrow>
                        (None, [first], wm\<lparr>vayner_current_task := Some agent_task\<rparr>, tasks))))"

text \<open>
  The loop of \<^verbatim>\<open>handle_submit\<close> over the updates of \<^verbatim>\<open>run_vayner_research\<close>: each
  update takes in the fragments that are queued, then is yielded.
\<close>

fun merge_queued ::
  "('k \<rightharpoonup> 'v) list \<Rightarrow> ('k \<rightharpoonup> 'v) list \<Rightarrow> ('k \<rightharpoonup> 'v) list \<times> ('k \<rightharpoonup> 'v) list" where
  "merge_queued [] queue = ([], queue)"
| "merge_queued (update # updates) queue =
     (case drain update queue of
        (update', queue', popped) \<Rightarrow>
          (case merge_queued updates queue' of (us, q) \<Rightarrow> (update' # us, q)))"

text \<open>
  \<^verbatim>\<open>handle_submit\<close>, up to the creation of the background task.  A blank business name
  gives a warning and one empty update.  Otherwise the name is stored, the collections are
  reset, the placeholder report is generated and yielded, the queue is reset, and
  \<^verbatim>\<open>run_vayner_research\<close> runs.  The function does not read
  \<^verbatim>\<open>vayner_current_task\<close>.
\<close>

definition handle_submit :: "env \<Rightarrow> 'c webui_manager \<Rightarrow> task_state list \<Rightarrow> string \<Rightarrow> 'c outcome" where
  "handle_submit e wm tasks business_name =
     (if strip business_name = [] then (None, [Map.empty], wm, tasks)
      else
        (let wm = wm\<lparr>vayner_current_business := strip business_name,
                      vayner_screenshots := [],
                      vayner_business_info := [],
                      vayner_keyword_data := [],
                      vayner_ranking_data := [],
                      vayner_keyword_table_rows := []\<rparr>;
             report = generate_live_report (strip business_name) ([]::string list) ([]::string list)
                        ([]::string list) ([]::string list) (Some []) FNone;
             wm = wm\<lparr>vayner_pdf_report := Some report\<rparr>;
             pdf_report_comp = get_component_by_id wm pdf_report_id;
             shown = [pdf_report_comp \<mapsto>
                        \<lparr>upd_value = Some (Html report), upd_interactive = None,
                         upd_visible = Some True\<rparr>];
             wm = wm\<lparr>update_queue := []\<rparr>
         in (case run_vayner_research e wm tasks (strip business_name) of
               (err, updates, wm, tasks) \<Rightarrow>
                 (case merge_queued updates (update_queue wm) of
                    (updates, queue) \<Rightarrow>
                      (err, shown # updates, wm\<lparr>update_queue := queue\<rparr>, tasks)))))"












text \<open>
  The manager of the application: the research tab registers its seven components
  (\<^verbatim>\<open>create_vayner_client_research_tab\<close>, line 1213), numbered here.
\<close>

definition tab_manager :: "nat webui_manager" where
  "tab_manager =
     add_components init_manager ''vayner_client_research''
       [(''chatbot'', 1), (''business_name'', 2), (''run_button'', 3), (''stop_button'', 4),
        (''clear_button'', 5), (''browser_view'', 6), (''pdf_report'', 7)]"

definition env_ok :: env where
  "env_ok = \<lparr>openai_api_key = ''sk-test'', failing_step = None\<rparr>"

definition teeth_step :: "action list" where
  "teeth_step =
     [\<lparr>thought = Some ''keyword: Teeth Whitening, performance: 88, sov: 2'', result = None\<rparr>]"

definition no_page :: browser_state where
  "no_page = \<lparr>screenshot = None, url = None, text_content = None\<rparr>"

text \<open>The parts of an outcome.\<close>

definition out_error :: "'c outcome \<Rightarrow> py_error option" where
  "out_error r = fst r"

definition out_updates :: "'c outcome \<Rightarrow> ('c option \<rightharpoonup> gr_update) list" where
  "out_updates r = fst (snd r)"

definition out_manager :: "'c outcome \<Rightarrow> 'c webui_manager" where
  "out_manager r = fst (snd (snd r))"

definition out_tasks :: "'c outcome \<Rightarrow> task_state list" where
  "out_tasks r = snd (snd (snd r))"

text \<open>A first submit on the fresh tab, and a second submit while its task runs.\<close>

definition submit_once :: "nat outcome" where
  "submit_once = handle_submit env_ok tab_manager [] ''Acme Dental''"

definition submit_twice :: "nat outcome" where
  "submit_twice =
     handle_submit env_ok (out_manager submit_once) (out_tasks submit_once) ''Acme Dental''"

section \<open>Properties of the component registry\<close>

lemma add_components_id_to_component:
  "id_to_component (add_components m t items) =
     id_to_component m ++ map_of (rev (map (\<lambda>(n, c). (comp_id t n, c)) items))"
proof (induction items arbitrary: m)
  case Nil
  then show ?case by simp
next
  case (Cons a items)
  obtain n c where a: "a = (n, c)" by (cases a)
  show ?case
    by (simp add: a Cons.IH fun_eq_iff map_add_def split: option.splits)
qed

lemma add_components_component_to_id:
  "component_to_id (add_components m t items) =
     component_to_id m ++ map_of (rev (map (\<lambda>(n, c). (c, comp_id t n)) items))"
proof (induction items arbitrary: m)
  case Nil
  then show ?case by simp
next
  case (Cons a items)
  obtain n c where a: "a = (n, c)" by (cases a)
  show ?case
    by (simp add: a Cons.IH fun_eq_iff map_add_def split: option.splits)
qed

lemma map_of_rev_distinct:
  "distinct (map fst xs) \<Longrightarrow> map_of (rev xs) = map_of xs"
  by (simp add: distinct_map map_of_inject_set inj_on_def)

lemma stored_forward:
  assumes "distinct (map fst items)" "(n, c) \<in> set items"
  shows "id_to_component (add_components m t items) (comp_id t n) = Some c"
proof -
  let ?ps = "map (\<lambda>(n, c). (comp_id t n, c)) items"
  have fst: "map fst ?ps = map (comp_id t) (map fst items)"
    by (simp add: case_prod_unfold comp_def)
  have d: "distinct (map fst ?ps)"
    unfolding fst using assms(1) by (simp add: distinct_map inj_on_def comp_id_def)
  have "(comp_id t n, c) \<in> set ?ps" using assms(2) by force
  with d have "map_of ?ps (comp_id t n) = Some c" by (rule map_of_is_SomeI)
  then show ?thesis
    by (simp add: add_components_id_to_component map_of_rev_distinct[OF d] map_add_def)
qed

lemma stored_inverse:
  assumes "distinct (map snd items)" "(n, c) \<in> set items"
  shows "component_to_id (add_components m t items) c = Some (comp_id t n)"
proof -
  let ?ps = "map (\<lambda>(n, c). (c, comp_id t n)) items"
  have fst: "map fst ?ps = map snd items"
    by (simp add: case_prod_unfold comp_def)
  have d: "distinct (map fst ?ps)"
    unfolding fst using assms(1) .
  have "(c, comp_id t n) \<in> set ?ps" using assms(2) by force
  with d have "map_of ?ps c = Some (comp_id t n)" by (rule map_of_is_SomeI)
  then show ?thesis
    by (simp add: add_components_component_to_id map_of_rev_distinct[OF d] map_add_def)
qed

text \<open>
  Claim C7, as amended.  \<^verbatim>\<open>add_components\<close> never fails.  For a dictionary argument
  (distinct field names), every composed id \<open>tab.field\<close> resolves to the handle given for
  it after the call, whether or not the id was registered before: an existing entry is
  replaced.  When the handles of the call are pairwise distinct, each handle maps back to
  its composed id.
\<close>

theorem add_components_replaces:
  "distinct (map fst items) \<Longrightarrow> (n, c) \<in> set items \<Longrightarrow>
     get_component_by_id (add_components m t items) (comp_id t n) = Some c \<and>
     (distinct (map snd items) \<longrightarrow>
        get_id_by_component (add_components m t items) c = Inr (comp_id t n))"
  by (simp add: get_component_by_id_def get_id_by_component_def stored_forward stored_inverse)

theorem add_components_replaces_witness:
  "distinct (map fst [(''f'', 2::nat)]) \<and> (''f'', 2::nat) \<in> set [(''f'', 2)] \<and>
   distinct (map snd [(''f'', 2::nat)]) \<and>
   get_component_by_id reg0 (comp_id ''t'' ''f'') = Some 1 \<and>
   get_component_by_id (add_components reg0 ''t'' [(''f'', 2)]) (comp_id ''t'' ''f'') = Some 2 \<and>
   get_id_by_component (add_components reg0 ''t'' [(''f'', 2)]) 2 = Inr (comp_id ''t'' ''f'')"
  using add_components_replaces [of "[(''f'', 2::nat)]" "''f''" 2 reg0 "''t''"]
  by (simp add: reg0_def init_manager_def get_component_by_id_def comp_id_def)

text \<open>
  Claim C7 as stated fails: the id \<open>t.f\<close> is registered with handle 1, a second
  registration of the same id with handle 2 returns normally and the entry now holds 2.
\<close>

theorem add_components_duplicate_counterexample:
  "get_component_by_id reg0 ''t.f'' = Some 1 \<and>
   get_component_by_id (add_components reg0 ''t'' [(''f'', 2)]) ''t.f'' = Some 2"
  by (simp add: reg0_def init_manager_def get_component_by_id_def comp_id_def)

lemma fresh_step:
  assumes inv: "registry_inverse m" and fr: "fresh_for m t items"
  shows "registry_inverse (add_components m t items)"
proof -
  let ?f = "map (\<lambda>(n, c). (comp_id t n, c)) items"
  let ?b = "map (\<lambda>(n, c). (c, comp_id t n)) items"
  from fr have d1: "distinct (map fst items)" and d2: "distinct (map snd items)"
    and new: "\<And>n c. (n, c) \<in> set items \<Longrightarrow>
        id_to_component m (comp_id t n) = None \<and> component_to_id m c = None"
    by (auto simp: fresh_for_def list_all_iff)
  have df: "distinct (map fst ?f)"
    using d1 by (simp add: case_prod_unfold comp_def distinct_map inj_on_def comp_id_def)
  have db: "distinct (map fst ?b)"
    using d2 by (simp add: case_prod_unfold comp_def)
  have F: "map_of ?f i = Some c \<longleftrightarrow> (\<exists>n. i = comp_id t n \<and> (n, c) \<in> set items)" for i c
    using df by auto
  have B: "map_of ?b c = Some i \<longleftrightarrow> (\<exists>n. i = comp_id t n \<and> (n, c) \<in> set items)" for i c
    using db by auto
  have FB: "map_of ?f i = Some c \<longleftrightarrow> map_of ?b c = Some i" for i c
    by (simp add: F B)
  show ?thesis
    unfolding registry_inverse_def
  proof (intro allI)
    fix i c
    show "id_to_component (add_components m t items) i = Some c \<longleftrightarrow>
          component_to_id (add_components m t items) c = Some i"
    proof (cases "map_of ?f i")
      case None
      note Nf = this
      show ?thesis
      proof (cases "map_of ?b c")
        case None
        with Nf inv show ?thesis
          by (simp add: add_components_id_to_component add_components_component_to_id
              map_of_rev_distinct[OF df] map_of_rev_distinct[OF db] map_add_def registry_inverse_def)
      next
        case (Some j)
        then obtain n where j: "j = comp_id t n" and mem: "(n, c) \<in> set items"
          using B by blast
        have "component_to_id m c = None" using new[OF mem] by simp
        then have "id_to_component m i \<noteq> Some c" using inv by (simp add: registry_inverse_def)
        moreover have "j \<noteq> i" using Nf F[of j c] j mem by auto
        ultimately show ?thesis using Nf Some
          by (simp add: add_components_id_to_component add_components_component_to_id
              map_of_rev_distinct[OF df] map_of_rev_distinct[OF db] map_add_def)
      qed
    next
      case (Some c')
      then obtain n where i: "i = comp_id t n" and mem: "(n, c') \<in> set items"
        using F by blast
      have none: "id_to_component m i = None" using new[OF mem] i by simp
      show ?thesis
      proof (cases "map_of ?b c")
        case None
        have "component_to_id m c \<noteq> Some i"
          using none inv unfolding registry_inverse_def by (metis option.distinct(1))
        moreover have "c' \<noteq> c" using None FB[of i c] Some by auto
        ultimately show ?thesis using None Some
          by (simp add: add_components_id_to_component add_components_component_to_id
              map_of_rev_distinct[OF df] map_of_rev_distinct[OF db] map_add_def)
      next
        case (Some j)
        show ?thesis using Some \<open>map_of ?f i = Some c'\<close> FB[of i c] FB[of i c'] FB[of j c]
          by (auto simp add: add_components_id_to_component add_components_component_to_id
              map_of_rev_distinct[OF df] map_of_rev_distinct[OF db] map_add_def)
      qed
    qed
  qed
qed

lemma register_seq_inverse:
  "registry_inverse m \<Longrightarrow> all_fresh m calls \<Longrightarrow> registry_inverse (register_seq m calls)"
proof (induction calls arbitrary: m)
  case Nil
  then show ?case by simp
next
  case (Cons a calls)
  obtain t items where a: "a = (t, items)" by (cases a)
  from Cons.prems have "registry_inverse (add_components m t items)"
    by (simp add: a fresh_step)
  with Cons show ?case by (simp add: a)
qed

lemma init_manager_inverse: "registry_inverse init_manager"
  by (simp add: registry_inverse_def init_manager_def)

text \<open>
  Claim C8, as amended.  Starting from the empty registry, after any sequence of
  \<^verbatim>\<open>add_components\<close> calls each of which is fresh (field names and handles of the call
  pairwise distinct, no composed id and no handle registered before), the two dictionaries
  are mutual inverses: \<^verbatim>\<open>get_component_by_id\<close> returns \<open>c\<close> for an id exactly when
  \<^verbatim>\<open>get_id_by_component\<close> returns that id for \<open>c\<close>.
\<close>

theorem registry_inverse_fresh:
  "all_fresh (init_manager :: 'c webui_manager) calls \<Longrightarrow>
     registry_inverse (register_seq (init_manager :: 'c webui_manager) calls) \<and>
     (\<forall>cid c. get_component_by_id (register_seq (init_manager :: 'c webui_manager) calls) cid = Some c \<longleftrightarrow>
        get_id_by_component (register_seq init_manager calls) c = Inr cid)"
proof -
  assume "all_fresh (init_manager :: 'c webui_manager) calls"
  then have inv: "registry_inverse (register_seq (init_manager :: 'c webui_manager) calls)"
    using init_manager_inverse register_seq_inverse by blast
  then show ?thesis
    by (auto simp: registry_inverse_def get_component_by_id_def get_id_by_component_def
        split: option.splits)
qed

theorem registry_inverse_fresh_witness:
  "all_fresh init_manager ui_calls \<and> registry_inverse (register_seq init_manager ui_calls)"
proof -
  have h: "all_fresh init_manager ui_calls"
    by (simp add: ui_calls_def fresh_for_def init_manager_def comp_id_def)
  show ?thesis using h registry_inverse_fresh [OF h] by simp
qed

text \<open>
  Claim C8 as stated fails after two registrations of the same id: handle 1 still maps
  back to \<open>t.f\<close>, and \<open>t.f\<close> resolves to handle 2.
\<close>

theorem registry_inverse_counterexample:
  "get_id_by_component (add_components reg0 ''t'' [(''f'', 2)]) 1 = Inr ''t.f'' \<and>
   get_component_by_id (add_components reg0 ''t'' [(''f'', 2)]) ''t.f'' = Some 2 \<and>
   \<not> registry_inverse (add_components reg0 ''t'' [(''f'', 2)])"
  by (simp add: reg0_def init_manager_def get_component_by_id_def get_id_by_component_def
      comp_id_def registry_inverse_def)

section \<open>Properties of the update queue\<close>

lemma drain_all: "drain u q = (foldl (++) u q, [], q)"
  by (induction q arbitrary: u) simp_all

lemma foldl_push: "foldl push q fs = q @ fs"
  by (induction fs arbitrary: q) (simp_all add: push_def)

text \<open>
  Claim C6.  After the fragments \<open>fs\<close> are pushed one by one onto the empty queue, the
  drain loop pops exactly \<open>fs\<close>, in push order, merges them into the update in that order,
  and leaves the queue empty; a drain of the queue it left pops nothing; a drain of an
  empty queue returns at once with the update unchanged.
\<close>

theorem drain_fifo:
  "drain u (foldl push [] fs) = (foldl (++) u fs, [], fs) \<and>
   drain (fst (drain u (foldl push [] fs))) (fst (snd (drain u (foldl push [] fs))))
     = (foldl (++) u fs, [], []) \<and>
   drain u [] = (u, [], [])"
  by (simp add: drain_all foldl_push)

section \<open>Properties of the live report\<close>

lemma foldl_append_html: "foldl (\<lambda>html x. html @ f x) html xs = html @ concat (map f xs)"
  by (induction xs arbitrary: html) simp_all

text \<open>
  Claim C3, as amended.  The keyword table of the live report holds one table row per
  keyword row, in insertion order, between the table head and the table foot, and nothing
  else: the report with rows is the report without rows with that table put in before the
  closing tags.  The renderer computes no Average row.
\<close>

theorem keyword_table_rows_only:
  "rows \<noteq> [] \<Longrightarrow>
     (\<exists>pre. generate_live_report bn bi kd rd ss (Some []) fr = pre @ ''</div></div>'' \<and>
            generate_live_report bn bi kd rd ss (Some rows) fr =
              pre @ keyword_table_open @ concat (map keyword_row_html rows) @
              keyword_table_close @ ''</div></div>'')"
  by (simp add: generate_live_report_def keyword_table_section_def Let_def foldl_append_html)

theorem keyword_table_rows_only_witness:
  "ab_rows \<noteq> [] \<and>
   (\<exists>pre. generate_live_report ''Acme'' ([]::string list) ([]::string list) ([]::string list)
             ([]::string list) (Some []) FNone = pre @ ''</div></div>'' \<and>
          generate_live_report ''Acme'' ([]::string list) ([]::string list) ([]::string list)
             ([]::string list) (Some ab_rows) FNone =
            pre @ keyword_table_open @
            keyword_row_html \<lparr>keyword = ''a'', performance = ''10'', sov = ''2''\<rparr> @
            keyword_row_html \<lparr>keyword = ''b'', performance = ''20'', sov = ''4''\<rparr> @
            keyword_table_close @ ''</div></div>'')"
proof -
  have h: "ab_rows \<noteq> []" by (simp add: ab_rows_def)
  show ?thesis
    using h keyword_table_rows_only [OF h, of "''Acme''" "[]::string list" "[]::string list"
        "[]::string list" "[]::string list" FNone]
    by (simp add: ab_rows_def)
qed

text \<open>
  Claim C3 as stated fails: for the rows a/10/2 and b/20/4 the keyword table is the table
  head, the two rows and the table foot; it holds no row labelled Average and no cell 15.
\<close>

theorem average_row_counterexample:
  "keyword_table_section [] ab_rows =
     keyword_table_open @
     keyword_row_html \<lparr>keyword = ''a'', performance = ''10'', sov = ''2''\<rparr> @
     keyword_row_html \<lparr>keyword = ''b'', performance = ''20'', sov = ''4''\<rparr> @
     keyword_table_close \<and>
   \<not> contains ''Average'' (keyword_table_section [] ab_rows) \<and>
   \<not> contains ''>15</td>'' (keyword_table_section [] ab_rows)"
  by (simp add: keyword_table_section_def keyword_table_open_def keyword_table_close_def
      keyword_row_html_def ab_rows_def)

text \<open>
  Claim C10.  The report does not depend on the business-info, keyword-note, ranking-note
  and screenshot collections: two calls that agree on the business name, the keyword rows
  and the final result return the same document.  A call without keyword rows returns
  the document of the empty list of rows.  The function is total: on the inputs of the
  model no branch raises.
\<close>

theorem report_ignores_collections:
  "generate_live_report bn bi kd rd ss rows fr = generate_live_report bn bi' kd' rd' ss' rows fr \<and>
   generate_live_report bn bi kd rd ss None fr = generate_live_report bn bi' kd' rd' ss' (Some []) fr"
  by (simp add: generate_live_report_def)

section \<open>Properties of the keyword table extraction\<close>

lemma insert_row_ok:
  "kw_unique rows \<Longrightarrow> kw_unique (insert_row rows k p s) \<and> prefix rows (insert_row rows k p s)"
  by (auto simp: kw_unique_def insert_row_def list_ex_iff)

lemma foldl_rows_ok:
  assumes step: "\<And>rows x. kw_unique rows \<Longrightarrow> kw_unique (f rows x) \<and> prefix rows (f rows x)"
  shows "kw_unique rows \<Longrightarrow> kw_unique (foldl f rows xs) \<and> prefix rows (foldl f rows xs)"
proof (induction xs arbitrary: rows)
  case Nil
  then show ?case by simp
next
  case (Cons x xs)
  from step[OF Cons.prems] have u: "kw_unique (f rows x)" and p: "prefix rows (f rows x)"
    by simp_all
  from Cons.IH[OF u] p show ?case
    by (auto intro: prefix_order.trans)
qed

lemma line_row_ok:
  "kw_unique rows \<Longrightarrow> kw_unique (line_row rows l) \<and> prefix rows (line_row rows l)"
  by (auto simp: line_row_def insert_row_ok split: option.splits)

lemma field_row_ok:
  "kw_unique rows \<Longrightarrow> kw_unique (field_row rows f) \<and> prefix rows (field_row rows f)"
  by (auto simp: field_row_def line_row_ok split: option.splits)

lemma table_row_ok:
  "kw_unique rows \<Longrightarrow> kw_unique (table_row rows r) \<and> prefix rows (table_row rows r)"
  by (auto simp: table_row_def Let_def insert_row_ok)

lemma item_row_ok:
  "kw_unique rows \<Longrightarrow> kw_unique (item_row rows i) \<and> prefix rows (item_row rows i)"
  by (auto simp: item_row_def insert_row_ok split: option.splits)

lemma parse_table_ok:
  "kw_unique rows \<Longrightarrow> kw_unique (parse_table rows ls) \<and> prefix rows (parse_table rows ls)"
  by (auto simp: parse_table_def foldl_rows_ok[where f = table_row, OF table_row_ok] split: option.splits)

lemma step_table_rows_ok:
  "kw_unique rows \<Longrightarrow>
     kw_unique (step_table_rows rows actions) \<and> prefix rows (step_table_rows rows actions)"
  unfolding step_table_rows_def
proof (rule foldl_rows_ok)
  fix rows :: "keyword_row list" and x :: action
  assume u: "kw_unique rows"
  from field_row_ok[OF u, of "thought x"]
  have u1: "kw_unique (field_row rows (thought x))" and p1: "prefix rows (field_row rows (thought x))"
    by simp_all
  from field_row_ok[OF u1, of "result x"] p1
  show "kw_unique (field_row (field_row rows (thought x)) (result x)) \<and>
        prefix rows (field_row (field_row rows (thought x)) (result x))"
    by (auto intro: prefix_order.trans)
qed

lemma done_table_rows_ok:
  assumes u: "kw_unique rows"
  shows "kw_unique (done_table_rows rows fr) \<and> prefix rows (done_table_rows rows fr)"
proof (cases fr)
  case (FStr s)
  let ?ls = "stripped_lines (splitlines s)"
  from parse_table_ok[OF u, of ?ls]
  have u1: "kw_unique (parse_table rows ?ls)" and p1: "prefix rows (parse_table rows ?ls)"
    by simp_all
  from foldl_rows_ok[where f = line_row, OF line_row_ok u1, of ?ls] p1
  have "kw_unique (foldl line_row (parse_table rows ?ls) ?ls) \<and>
        prefix rows (foldl line_row (parse_table rows ?ls) ?ls)"
    by (auto intro: prefix_order.trans)
  with u show ?thesis by (simp add: done_table_rows_def FStr Let_def)
next
  case (FList items)
  from foldl_rows_ok[where f = item_row, OF item_row_ok u, of items] u
  show ?thesis by (simp add: done_table_rows_def FList)
qed (use u in \<open>simp_all add: done_table_rows_def\<close>)

text \<open>
  Claim C5.  The keyword rows are unique by lower-cased keyword after every insertion:
  the guarded append, the extraction of a step (lines 667 to 684) and the extraction from
  the final result (lines 820 to 876) each keep the invariant and keep the rows that were
  there in place, so the first row seen for a keyword stays (the collection starts empty
  at each submit).  Inserting Dentist/12/3 and then dentist/99/1 leaves the one row with
  performance 12.
\<close>

theorem keyword_rows_unique:
  assumes "kw_unique rows"
  shows "kw_unique (insert_row rows k p s) \<and> prefix rows (insert_row rows k p s) \<and>
     kw_unique (step_table_rows rows actions) \<and> prefix rows (step_table_rows rows actions) \<and>
     kw_unique (done_table_rows rows final_result) \<and>
     prefix rows (done_table_rows rows final_result) \<and>
     insert_row (insert_row [] ''Dentist'' ''12'' ''3'') ''dentist'' ''99'' ''1'' =
       [\<lparr>keyword = ''Dentist'', performance = ''12'', sov = ''3''\<rparr>]"
proof -
  have "insert_row (insert_row [] ''Dentist'' ''12'' ''3'') ''dentist'' ''99'' ''1'' =
       [\<lparr>keyword = ''Dentist'', performance = ''12'', sov = ''3''\<rparr>]"
    by code_simp
  then show ?thesis
    using insert_row_ok[OF assms] step_table_rows_ok[OF assms] done_table_rows_ok[OF assms]
    by simp
qed

theorem keyword_rows_unique_witness:
  "kw_unique [] \<and>
   step_table_rows [] dentist_steps = [\<lparr>keyword = ''Dentist'', performance = ''12'', sov = ''3''\<rparr>] \<and>
   kw_unique (step_table_rows [] dentist_steps) \<and>
   done_table_rows (step_table_rows [] dentist_steps) (FStr ''keyword: DENTIST, performance: 5, sov: 5'')
     = [\<lparr>keyword = ''Dentist'', performance = ''12'', sov = ''3''\<rparr>]"
proof -
  have h: "kw_unique []" by (simp add: kw_unique_def)
  have e: "step_table_rows [] dentist_steps = [\<lparr>keyword = ''Dentist'', performance = ''12'', sov = ''3''\<rparr>]"
    by code_simp
  have d: "done_table_rows [\<lparr>keyword = ''Dentist'', performance = ''12'', sov = ''3''\<rparr>] (FStr ''keyword: DENTIST, performance: 5, sov: 5'')
     = [\<lparr>keyword = ''Dentist'', performance = ''12'', sov = ''3''\<rparr>]"
    by code_simp
  show ?thesis
    using h e d keyword_rows_unique [OF h, of "''x''" "''1''" "''2''" dentist_steps FNone]
    by simp
qed












section \<open>Properties of the callbacks and the handlers\<close>

lemma name_error_history: "name_error ''history'' = Some (NameError ''history'')"
  by (simp add: name_error_def step_callback_scope_def)

lemma classify_action_keeps:
  "update_queue (classify_action wm a) = update_queue wm \<and>
   vayner_pdf_report (classify_action wm a) = vayner_pdf_report wm \<and>
   id_to_component (classify_action wm a) = id_to_component wm \<and>
   vayner_keyword_table_rows (classify_action wm a) = vayner_keyword_table_rows wm"
  by (simp add: classify_action_def Let_def split: option.splits)

lemma foldl_classify_keeps:
  "update_queue (foldl classify_action wm as) = update_queue wm \<and>
   vayner_pdf_report (foldl classify_action wm as) = vayner_pdf_report wm \<and>
   id_to_component (foldl classify_action wm as) = id_to_component wm \<and>
   vayner_keyword_table_rows (foldl classify_action wm as) = vayner_keyword_table_rows wm"
  by (induction as arbitrary: wm) (simp_all add: classify_action_keeps)

lemma step_extract_keeps:
  "update_queue (step_extract wm st as) = update_queue wm \<and>
   vayner_pdf_report (step_extract wm st as) = vayner_pdf_report wm \<and>
   vayner_keyword_table_rows (step_extract wm st as) =
     step_table_rows (vayner_keyword_table_rows wm) as"
  by (simp add: step_extract_def Let_def foldl_classify_keeps split: option.splits)

lemma step_callback_keeps:
  "update_queue (step_callback fr log wm st as) = update_queue wm \<and>
   vayner_pdf_report (step_callback fr log wm st as) = vayner_pdf_report wm \<and>
   vayner_keyword_table_rows (step_callback fr log wm st as) =
     step_table_rows (vayner_keyword_table_rows wm) as"
  by (simp add: step_callback_def step_report_update_def name_error_history Let_def
      step_extract_keeps split: option.splits)

lemma submit_once_eval:
  "out_error submit_once = None \<and> out_tasks submit_once = [Running] \<and>
   vayner_current_task (out_manager submit_once) = Some 0 \<and>
   vayner_agent (out_manager submit_once) = Some \<lparr>has_stop = True, stopped = False, paused = False\<rparr> \<and>
   update_queue (out_manager submit_once) = [] \<and>
   vayner_keyword_table_rows (out_manager submit_once) = [] \<and>
   vayner_pdf_report (out_manager submit_once) =
     Some (generate_live_report ''Acme Dental'' ([]::string list) ([]::string list)
             ([]::string list) ([]::string list) (Some []) FNone) \<and>
   get_component_by_id (out_manager submit_once) run_button_id = Some 3 \<and>
   get_component_by_id (out_manager submit_once) stop_button_id = Some 4 \<and>
   get_component_by_id (out_manager submit_once) pdf_report_id = Some 7"
  by (simp add: submit_once_def handle_submit_def run_vayner_research_def init_objects_def
      raises_at_def env_ok_def tab_manager_def init_manager_def create_task_def
      out_error_def out_tasks_def out_manager_def strip_def is_space_def
      get_component_by_id_def comp_id_def run_button_id_def stop_button_id_def pdf_report_id_def
      chatbot_id_def Let_def)

text \<open>
  Claim C2 (the code departs from it).  The name \<^verbatim>\<open>history\<close> is not bound in
  \<^verbatim>\<open>step_callback\<close>, so the report update of every step raises \<^verbatim>\<open>NameError\<close>,
  which the \<^verbatim>\<open>except\<close> of the step logs: the facts of the step are aggregated, the
  report is not regenerated and nothing is put on the update queue.  After a submit for
  Acme Dental and one step that reports Teeth Whitening/88/2, the row is in the keyword
  table, the queue is empty and the report is still the placeholder of the submit.
\<close>

theorem step_callback_report_not_updated:
  "update_queue (step_callback fr log wm st as) = update_queue wm \<and>
   vayner_pdf_report (step_callback fr log wm st as) = vayner_pdf_report wm \<and>
   step_report_update fr wm = Inl (NameError ''history'') \<and>
   vayner_keyword_table_rows (step_callback FNone ''step 1'' (out_manager submit_once) no_page teeth_step) =
     [\<lparr>keyword = ''Teeth Whitening'', performance = ''88'', sov = ''2''\<rparr>] \<and>
   update_queue (step_callback FNone ''step 1'' (out_manager submit_once) no_page teeth_step) = [] \<and>
   vayner_pdf_report (step_callback FNone ''step 1'' (out_manager submit_once) no_page teeth_step) =
     Some (generate_live_report ''Acme Dental'' ([]::string list) ([]::string list)
             ([]::string list) ([]::string list) (Some []) FNone)"
proof -
  have rows: "step_table_rows [] teeth_step =
      [\<lparr>keyword = ''Teeth Whitening'', performance = ''88'', sov = ''2''\<rparr>]"
    by code_simp
  show ?thesis
    using rows
    by (simp add: step_callback_keeps submit_once_eval step_report_update_def name_error_history)
qed

lemma init_objects_ok:
  "failing_step e = None \<Longrightarrow>
     \<exists>wm'. init_objects e wm = (None, wm') \<and> vayner_agent wm' \<noteq> None \<and>
           id_to_component wm' = id_to_component wm \<and> update_queue wm' = update_queue wm"
  by (simp add: init_objects_def raises_at_def split: option.splits)

lemma merge_queued_empty: "merge_queued ups [] = (ups, [])"
  by (induction ups) simp_all

text \<open>
  Claim C1, as amended.  In a session whose current task is running, \<^verbatim>\<open>handle_submit\<close>
  starts nothing only for a blank business name.  For any other name (the name is taken to
  be ASCII text, where a blank name is one of ASCII white space only), when the API key is
  set and the initialisation does not raise, it creates one more task, stores it as the
  current task, and the earlier task is still running: the number of live tasks grows by
  one.
\<close>

theorem handle_submit_ignores_running_task:
  assumes "vayner_current_task wm = Some t" and "\<not> task_done tasks t"
  shows "(strip bn = [] \<longrightarrow> handle_submit e wm tasks bn = (None, [Map.empty], wm, tasks)) \<and>
         (is_ascii bn \<and> strip bn \<noteq> [] \<and> openai_api_key e \<noteq> [] \<and> failing_step e = None \<longrightarrow>
            out_error (handle_submit e wm tasks bn) = None \<and>
            out_tasks (handle_submit e wm tasks bn) = tasks @ [Running] \<and>
            vayner_current_task (out_manager (handle_submit e wm tasks bn)) = Some (length tasks) \<and>
            \<not> task_done (out_tasks (handle_submit e wm tasks bn)) t \<and>
            live_tasks (out_tasks (handle_submit e wm tasks bn)) = live_tasks tasks + 1)"
proof (intro conjI impI)
  show "strip bn = [] \<Longrightarrow> handle_submit e wm tasks bn = (None, [Map.empty], wm, tasks)"
    by (simp add: handle_submit_def)
next
  assume a: "is_ascii bn \<and> strip bn \<noteq> [] \<and> openai_api_key e \<noteq> [] \<and> failing_step e = None"
  let ?wm0 = "wm\<lparr>vayner_current_business := strip bn, vayner_screenshots := [],
        vayner_business_info := [], vayner_keyword_data := [], vayner_ranking_data := [],
        vayner_keyword_table_rows := [],
        vayner_pdf_report := Some (generate_live_report (strip bn) ([]::string list) ([]::string list)
                        ([]::string list) ([]::string list) (Some []) FNone),
        update_queue := [],
        vayner_chat_history := vayner_chat_history wm @
                 [\<lparr>role = ''user'', content = ''Research business: '' @ strip bn\<rparr>,
                  \<lparr>role = ''assistant'', content = ''Starting research for '' @ strip bn @ ''...''\<rparr>]\<rparr>"
  from a init_objects_ok[of e ?wm0] obtain wm' where
    i: "init_objects e ?wm0 = (None, wm')" and q: "update_queue wm' = []"
    by auto
  have r: "handle_submit e wm tasks bn =
      (None, out_updates (handle_submit e wm tasks bn),
       wm'\<lparr>vayner_current_task := Some (length tasks), update_queue := []\<rparr>, tasks @ [Running])"
    using a i q
    by (simp add: handle_submit_def run_vayner_research_def Let_def create_task_def
        merge_queued_empty out_updates_def get_component_by_id_def)
  show "out_error (handle_submit e wm tasks bn) = None"
    by (subst r) (simp add: out_error_def)
  show "out_tasks (handle_submit e wm tasks bn) = tasks @ [Running]"
    by (subst r) (simp add: out_tasks_def)
  show "vayner_current_task (out_manager (handle_submit e wm tasks bn)) = Some (length tasks)"
    by (subst r) (simp add: out_manager_def)
  show "\<not> task_done (out_tasks (handle_submit e wm tasks bn)) t"
    using assms(2) by (subst r) (simp add: out_tasks_def task_done_def nth_append)
  show "live_tasks (out_tasks (handle_submit e wm tasks bn)) = live_tasks tasks + 1"
    by (subst r) (simp add: out_tasks_def live_tasks_def)
qed


theorem handle_submit_ignores_running_task_witness:
  "vayner_current_task (out_manager submit_once) = Some 0 \<and>
   \<not> task_done (out_tasks submit_once) 0 \<and>
   handle_submit env_ok (out_manager submit_once) (out_tasks submit_once) ''   '' =
     (None, [Map.empty], out_manager submit_once, out_tasks submit_once) \<and>
   is_ascii ''Acme Dental'' \<and> strip ''Acme Dental'' \<noteq> [] \<and>
   openai_api_key env_ok \<noteq> [] \<and> failing_step env_ok = None \<and>
   out_tasks submit_twice = [Running, Running] \<and>
   vayner_current_task (out_manager submit_twice) = Some 1"
proof -
  have a: "vayner_current_task (out_manager submit_once) = Some 0"
    by (simp add: submit_once_eval)
  have b: "\<not> task_done (out_tasks submit_once) 0"
    by (simp add: submit_once_eval task_done_def)
  have c: "strip ''   '' = []" "strip ''Acme Dental'' \<noteq> []" "is_ascii ''Acme Dental''"
    by (simp_all add: strip_def is_space_def is_ascii_def)
  show ?thesis
    using a b c
      handle_submit_ignores_running_task [OF a b, of "''   ''" env_ok]
      handle_submit_ignores_running_task [OF a b, of "''Acme Dental''" env_ok]
    by (simp add: submit_twice_def submit_once_eval env_ok_def)
qed

text \<open>
  Claim C1 as stated fails: after a first submit the session has the running task 0; a
  second submit returns without error, the event loop holds two running tasks, and the
  current task of the session is the new task 1.
\<close>

theorem second_submit_counterexample:
  "vayner_current_task (out_manager submit_once) = Some 0 \<and>
   \<not> task_done (out_tasks submit_once) 0 \<and>
   out_error submit_twice = None \<and>
   out_tasks submit_twice = [Running, Running] \<and>
   live_tasks (out_tasks submit_twice) = 2 \<and>
   vayner_current_task (out_manager submit_twice) = Some 1"
  by (simp add: submit_twice_def handle_submit_def run_vayner_research_def init_objects_def
      raises_at_def env_ok_def create_task_def merge_queued_empty
      out_error_def out_tasks_def out_manager_def strip_def is_space_def live_tasks_def
      task_done_def submit_once_eval[unfolded out_error_def out_tasks_def out_manager_def]
      Let_def split: prod.splits)

lemma init_objects_keeps:
  "init_objects e wm = (err, wm') \<Longrightarrow>
     (err = None \<longrightarrow> vayner_agent wm' \<noteq> None) \<and>
     (vayner_agent wm \<noteq> None \<longrightarrow> vayner_agent wm' \<noteq> None) \<and>
     id_to_component wm' = id_to_component wm \<and>
     vayner_current_task wm' = vayner_current_task wm"
  by (auto simp: init_objects_def split: option.splits if_splits prod.splits dest: sym)

text \<open>
  A session never holds a task without an agent: \<^verbatim>\<open>run_vayner_research\<close> sets the
  agent before it creates the task, and nothing resets the agent.
\<close>

lemma task_needs_agent:
  assumes "vayner_current_task wm \<noteq> None \<longrightarrow> vayner_agent wm \<noteq> None"
  shows "vayner_current_task (out_manager (handle_submit e wm tasks bn)) \<noteq> None \<longrightarrow>
         vayner_agent (out_manager (handle_submit e wm tasks bn)) \<noteq> None"
proof (cases "strip bn = []")
  case True
  with assms show ?thesis by (simp add: handle_submit_def out_manager_def)
next
  case False
  let ?wm0 = "wm\<lparr>vayner_current_business := strip bn, vayner_screenshots := [],
        vayner_business_info := [], vayner_keyword_data := [], vayner_ranking_data := [],
        vayner_keyword_table_rows := [],
        vayner_pdf_report := Some (generate_live_report (strip bn) ([]::string list) ([]::string list)
                        ([]::string list) ([]::string list) (Some []) FNone),
        update_queue := [],
        vayner_chat_history := vayner_chat_history wm @
                 [\<lparr>role = ''user'', content = ''Research business: '' @ strip bn\<rparr>,
                  \<lparr>role = ''assistant'', content = ''Starting research for '' @ strip bn @ ''...''\<rparr>]\<rparr>"
  obtain err wm' where i: "init_objects e ?wm0 = (err, wm')"
    by (cases "init_objects e ?wm0")
  from init_objects_keeps[OF i] assms
  have k: "err = None \<longrightarrow> vayner_agent wm' \<noteq> None"
    and k2: "vayner_current_task wm' \<noteq> None \<longrightarrow> vayner_agent wm' \<noteq> None"
    by auto
  show ?thesis
    using False i k k2 assms
    by (cases err)
       (simp_all add: handle_submit_def run_vayner_research_def Let_def out_manager_def
          get_component_by_id_def create_task_def split: prod.splits)
qed







end
